theory Spec2Isabelle
  imports Main "HOL-Library.Word"
begin

unbundle bit_operations_syntax

section \<open>The register interface as an event trace\<close>

text \<open>
  Both drivers of the repository talk to the SHA-256d core through the platform's
  memory-mapped accessors \<^verbatim>\<open>Xil_Out32\<close> and \<^verbatim>\<open>Xil_In32\<close>
  and pause with \<^verbatim>\<open>usleep\<close>. The embedding records every such call, in
  program order, as an event of a trace. The hardware is opaque: the value a load returns is
  given by a function of the history so far and of the address, so that every deterministic
  behaviour of the core (in particular every sequence of status values) is an instance.
  The output of \<^verbatim>\<open>printf\<close> and \<^verbatim>\<open>xil_printf\<close> is not part
  of the model.
\<close>

type_synonym u32 = "32 word"
type_synonym u8 = "8 word"

datatype event =
    Write u32 u32   \<comment> \<open>a 32-bit store: address, value\<close>
  | Read u32 u32    \<comment> \<open>a 32-bit load: address, value returned\<close>
  | Delay nat       \<comment> \<open>a call of usleep: microseconds\<close>

type_synonym trace = "event list"
type_synonym hardware = "trace \<Rightarrow> u32 \<Rightarrow> u32"

definition Xil_Out32 :: "u32 \<Rightarrow> u32 \<Rightarrow> trace \<Rightarrow> trace" where
  "Xil_Out32 addr val t = t @ [Write addr val]"

definition Xil_In32 :: "u32 \<Rightarrow> hardware \<Rightarrow> trace \<Rightarrow> u32 \<times> trace" where
  "Xil_In32 addr hw t = (hw t addr, t @ [Read addr (hw t addr)])"

definition usleep :: "nat \<Rightarrow> trace \<Rightarrow> trace" where
  "usleep us t = t @ [Delay us]"

text \<open>
  The three ways a polling session ends. The C functions return nothing; the outcome names
  the \<^verbatim>\<open>break\<close> that left the loop. A loop body either leaves the loop or hands
  the loop variable (if any) and the trace to the next iteration.
\<close>

datatype outcome = GoldenNonceFound u32 | RangeExhausted | TimedOut

datatype 'i step = Break outcome trace | Continue 'i trace

section \<open>bitcoin\_miner\_sdk\_xilinx.c\<close>

definition MINER_BASE_ADDR :: u32 where "MINER_BASE_ADDR = 0x43C00000"

definition BANK_0_OFFSET :: u32 where "BANK_0_OFFSET = 0x0000"
definition BANK_1_OFFSET :: u32 where "BANK_1_OFFSET = 0x0100"
definition BANK_2_OFFSET :: u32 where "BANK_2_OFFSET = 0x0200"
definition BANK_3_OFFSET :: u32 where "BANK_3_OFFSET = 0x0300"

definition CTRL_SRST :: u32 where "CTRL_SRST = 0x0000"
definition CTRL_START :: u32 where "CTRL_START = 0x0004"
definition CTRL_CURRENT_HASH_REQ :: u32 where "CTRL_CURRENT_HASH_REQ = 0x0010"

definition STATUS_FOUND :: u32 where "STATUS_FOUND = 0x0000"
definition STATUS_NOT_FOUND :: u32 where "STATUS_NOT_FOUND = 0x0004"
definition STATUS_GOLDEN_NONCE :: u32 where "STATUS_GOLDEN_NONCE = 0x0008"
definition STATUS_CURRENT_NONCE :: u32 where "STATUS_CURRENT_NONCE = 0x000C"

record bitcoin_block_header_t =
  version :: u32
  prev_block :: "u8 list"
  merkle_root :: "u8 list"
  timestamp :: u32
  bits :: u32
  nonce :: u32

record mining_params_t =
  mid_state :: "u32 list"
  residual_data :: "u32 list"
  target :: "u32 list"

definition write_register :: "u32 \<Rightarrow> u32 \<Rightarrow> trace \<Rightarrow> trace" where
  "write_register offset val t = Xil_Out32 (MINER_BASE_ADDR + offset) val t"

definition read_register :: "u32 \<Rightarrow> hardware \<Rightarrow> trace \<Rightarrow> u32 \<times> trace" where
  "read_register offset hw t = Xil_In32 (MINER_BASE_ADDR + offset) hw t"

text \<open>The three bank writers: \<^verbatim>\<open>for (int i = 0; i < n; i++)\<close> as a fold over
  the indices.\<close>

definition write_mid_state :: "u32 list \<Rightarrow> trace \<Rightarrow> trace" where
  "write_mid_state mid_state' t =
     fold (\<lambda>i. write_register (BANK_1_OFFSET + (of_nat i * 4)) (mid_state' ! i)) [0..<8] t"

definition write_residual_data :: "u32 list \<Rightarrow> trace \<Rightarrow> trace" where
  "write_residual_data residual_data' t =
     fold (\<lambda>i. write_register (BANK_2_OFFSET + (of_nat i * 4)) (residual_data' ! i)) [0..<3] t"

definition write_target :: "u32 list \<Rightarrow> trace \<Rightarrow> trace" where
  "write_target target' t =
     fold (\<lambda>i. write_register (BANK_3_OFFSET + (of_nat i * 4)) (target' ! i)) [0..<8] t"

definition start_mining :: "trace \<Rightarrow> trace" where
  "start_mining t = write_register CTRL_START 1 t"

definition stop_mining :: "trace \<Rightarrow> trace" where
  "stop_mining t =
     (let t1 = write_register CTRL_SRST 1 t;
          t2 = usleep 1000 t1
      in write_register CTRL_SRST 0 t2)"

definition check_found :: "hardware \<Rightarrow> trace \<Rightarrow> u32 \<times> trace" where
  "check_found hw t =
     (let (found, t1) = read_register STATUS_FOUND hw t
      in (found AND 0x1, t1))"

definition get_golden_nonce :: "hardware \<Rightarrow> trace \<Rightarrow> u32 \<times> trace" where
  "get_golden_nonce hw t = read_register STATUS_GOLDEN_NONCE hw t"

definition get_current_nonce :: "hardware \<Rightarrow> trace \<Rightarrow> u32 \<times> trace" where
  "get_current_nonce hw t =
     (let t1 = write_register CTRL_CURRENT_HASH_REQ 1 t;
          t2 = usleep 1000 t1;
          t3 = write_register CTRL_CURRENT_HASH_REQ 0 t2
      in read_register STATUS_CURRENT_NONCE hw t3)"

definition print_mining_status :: "hardware \<Rightarrow> trace \<Rightarrow> trace" where
  "print_mining_status hw t =
     (let (current_nonce, t1) = get_current_nonce hw t;
          (found, t2) = read_register STATUS_FOUND hw t1;
          (not_found, t3) = read_register STATUS_NOT_FOUND hw t2
      in if found \<noteq> 0
         then (let (golden_nonce, t4) = get_golden_nonce hw t3 in t4)
         else t3)"

definition easy_target :: "u32 list" where
  "easy_target =
     [0xFFFFFFFF, 0xFFFFFFFF, 0xFFFFFFFF, 0xFFFFFFFF,
      0xFFFFFFFF, 0xFFFFFFFF, 0xFFFFFFFF, 0x000000FF]"

definition set_test_difficulty :: "trace \<Rightarrow> trace" where
  "set_test_difficulty t = write_target easy_target t"

definition real_target :: "u32 list" where
  "real_target =
     [0x00000000, 0x00000000, 0x00000000, 0x00000000,
      0x00000000, 0x00000000, 0x00000000, 0x00000000]"

definition set_real_difficulty :: "trace \<Rightarrow> trace" where
  "set_real_difficulty t = write_target real_target t"

text \<open>
  \<^verbatim>\<open>process_block_header\<close> fills the caller's \<^verbatim>\<open>mining_params_t\<close>
  in place; the model takes the structure and returns it updated. The local \<open>exp\<close> is
  computed and never used.
\<close>

definition process_block_header ::
    "bitcoin_block_header_t \<Rightarrow> mining_params_t \<Rightarrow> mining_params_t" where
  "process_block_header header params =
     (let p1 = fold (\<lambda>i p. p\<lparr>mid_state := (mid_state p)[i := 0x12345678 + of_nat i]\<rparr>)
                 [0..<8] params;
          p2 = p1\<lparr>residual_data := (residual_data p1)[0 := nonce header]\<rparr>;
          p3 = p2\<lparr>residual_data := (residual_data p2)[1 := 0x80000000]\<rparr>;
          p4 = p3\<lparr>residual_data := (residual_data p3)[2 := 0x00000140]\<rparr>;
          exp = drop_bit 24 (bits header) AND 0xFF;
          mantissa = bits header AND 0xFFFFFF;
          p5 = fold (\<lambda>i p. p\<lparr>target := (target p)[i := 0xFFFFFFFF]\<rparr>) [0..<8] p4
      in p5\<lparr>target := (target p5)[0 := mantissa]\<rparr>)"

text \<open>
  The declaration \<^verbatim>\<open>mining_params_t params;\<close> of the two mining loops: arrays
  of 8, 3 and 8 words. C leaves their contents indeterminate; every word is overwritten by
  \<open>process_block_header\<close> before anything reads it (lemma \<open>process_block_header_overwrites\<close>
  below), so the model fills them with zeros.
\<close>

definition params_decl :: mining_params_t where
  "params_decl =
     \<lparr>mid_state = replicate 8 0, residual_data = replicate 3 0, target = replicate 8 0\<rparr>"

text \<open>
  One pass through the body of \<^verbatim>\<open>while (1)\<close> of the mining loops. The two
  loops of the source differ only in how often the status is printed (\<open>period\<close>: 10 and
  100) and in the iteration cap (\<open>cap\<close>: 1000 and 10000). The loop variable
  \<open>iteration\<close> starts at 0 and never exceeds \<open>cap + 1\<close>, so it is a natural number.
\<close>

definition mining_loop_body :: "nat \<Rightarrow> nat \<Rightarrow> hardware \<Rightarrow> nat \<Rightarrow> trace \<Rightarrow> nat step" where
  "mining_loop_body period cap hw iteration t =
     (let t0 = (if iteration mod period = 0 then print_mining_status hw t else t);
          (found, t1) = check_found hw t0
      in if found \<noteq> 0 then
           (let (golden_nonce, t2) = get_golden_nonce hw t1
            in Break (GoldenNonceFound golden_nonce) (stop_mining t2))
         else
           (let (not_found, t2) = read_register STATUS_NOT_FOUND hw t1
            in if not_found \<noteq> 0 then Break RangeExhausted (stop_mining t2)
               else
                 (let t3 = usleep 100000 t2;
                      iteration' = iteration + 1
                  in if iteration' > cap then Break TimedOut (stop_mining t3)
                     else Continue iteration' t3)))"

text \<open>What a polling session leaves behind: the outcome, the number of passes through the
  loop body, and the trace.\<close>

record session =
  result :: outcome
  passes :: nat
  events :: trace

text \<open>
  The loop \<^verbatim>\<open>while (1)\<close>: passes are made until one of them breaks. The
  argument \<open>n\<close> is not a variable of the source; it counts the passes made so far. The
  loop ends for every hardware, since \<open>iteration\<close> grows by one per pass and a pass
  that reaches \<open>cap + 1\<close> breaks.
\<close>

function mining_loop_while ::
    "nat \<Rightarrow> nat \<Rightarrow> hardware \<Rightarrow> nat \<Rightarrow> nat \<Rightarrow> trace \<Rightarrow> session" where
  "mining_loop_while period cap hw n iteration t =
     (case mining_loop_body period cap hw iteration t of
        Break out t' \<Rightarrow> \<lparr>result = out, passes = Suc n, events = t'\<rparr>
      | Continue iteration' t' \<Rightarrow> mining_loop_while period cap hw (Suc n) iteration' t')"
  by pat_completeness auto
termination
proof (relation "measure (\<lambda>(period, cap, hw, n, iteration, t). Suc cap - iteration)")
  show "wf (measure (\<lambda>(period, cap, hw, n, iteration, t). Suc cap - iteration))"
    by simp
next
  fix period cap :: nat and hw :: hardware and n iteration :: nat and t :: trace
    and i' :: nat and t' :: trace
  assume "mining_loop_body period cap hw iteration t = Continue i' t'"
  then have "i' = Suc iteration \<and> i' \<le> cap"
    by (auto simp: mining_loop_body_def Let_def split: prod.splits if_splits)
  then show "((period, cap, hw, Suc n, i', t'), (period, cap, hw, n, iteration, t))
      \<in> measure (\<lambda>(period, cap, hw, n, iteration, t). Suc cap - iteration)"
    by auto
qed

declare mining_loop_while.simps [simp del]

text \<open>
  \<^verbatim>\<open>mining_loop_test\<close> and \<^verbatim>\<open>mining_loop_real\<close>, from the
  statement after the initialisation of their local \<open>header\<close>: derive the parameters,
  set the difficulty, write midstate and residual data, start the core, poll (source lines
  219 to 267 and 285 to 335).
\<close>

definition mining_loop_test_from ::
    "hardware \<Rightarrow> bitcoin_block_header_t \<Rightarrow> trace \<Rightarrow> session" where
  "mining_loop_test_from hw header t =
     (let params = process_block_header header params_decl;
          t1 = set_test_difficulty t;
          t2 = write_mid_state (mid_state params) t1;
          t3 = write_residual_data (residual_data params) t2;
          t4 = start_mining t3
      in mining_loop_while 10 1000 hw 0 0 t4)"

definition mining_loop_real_from ::
    "hardware \<Rightarrow> bitcoin_block_header_t \<Rightarrow> trace \<Rightarrow> session" where
  "mining_loop_real_from hw header t =
     (let params = process_block_header header params_decl;
          t1 = set_real_difficulty t;
          t2 = write_mid_state (mid_state params) t1;
          t3 = write_residual_data (residual_data params) t2;
          t4 = start_mining t3
      in mining_loop_while 100 10000 hw 0 0 t4)"

text \<open>
  The two entry points build their header first: \<open>now\<close> is the value of
  \<^verbatim>\<open>(uint32_t)time(NULL)\<close>; the two byte arrays are zero-initialised by the
  designated initialiser.
\<close>

definition mining_loop_test :: "hardware \<Rightarrow> u32 \<Rightarrow> trace \<Rightarrow> session" where
  "mining_loop_test hw now t =
     mining_loop_test_from hw
       \<lparr>version = 0x20000000, prev_block = replicate 32 0, merkle_root = replicate 32 0,
        timestamp = now, bits = 0x1D00FFFF, nonce = 0\<rparr> t"

definition mining_loop_real :: "hardware \<Rightarrow> u32 \<Rightarrow> trace \<Rightarrow> session" where
  "mining_loop_real hw now t =
     mining_loop_real_from hw
       \<lparr>version = 0x20000000, prev_block = replicate 32 0, merkle_root = replicate 32 0,
        timestamp = now, bits = 0x1703FFFC, nonce = 0\<rparr> t"

text \<open>
  \<^verbatim>\<open>main\<close> of the SDK reads the operator's selection with
  \<^verbatim>\<open>scanf("%d", &choice)\<close>, does not look at what \<^verbatim>\<open>scanf\<close> returns,
  and declares \<^verbatim>\<open>int choice\<close> without an initialiser. The conversion
  \<^verbatim>\<open>%d\<close> of the C library skips white space, takes an optional sign and the
  longest run of decimal digits, and stores nothing when there is no digit (or no input at
  all): \<open>scanf_d\<close> is the number read from the typed text, or \<open>None\<close>.
\<close>

definition isspace :: "char \<Rightarrow> bool" where
  "isspace c = (c = CHR '' '' \<or> c = CHR 0x09 \<or> c = CHR 0x0A \<or> c = CHR 0x0B
                \<or> c = CHR 0x0C \<or> c = CHR 0x0D)"

text \<open>The decimal digits are the characters with the codes 48 to 57; \<open>isspace\<close> is
  the white space of the C locale.\<close>

definition digit_of :: "char \<Rightarrow> nat option" where
  "digit_of c =
     (let code = (of_char c :: nat)
      in if 48 \<le> code \<and> code \<le> 57 then Some (code - 48) else None)"

fun read_digits :: "string \<Rightarrow> nat option \<Rightarrow> nat option" where
  "read_digits [] acc = acc"
| "read_digits (c # cs) acc =
     (case digit_of c of
        None \<Rightarrow> acc
      | Some d \<Rightarrow> read_digits cs (Some (10 * (case acc of None \<Rightarrow> 0 | Some a \<Rightarrow> a) + d)))"

definition scanf_d :: "string \<Rightarrow> int option" where
  "scanf_d typed =
     (case dropWhile isspace typed of
        [] \<Rightarrow> None
      | c # cs \<Rightarrow>
          if c = CHR ''-'' then map_option (\<lambda>n. - int n) (read_digits cs None)
          else if c = CHR ''+'' then map_option int (read_digits cs None)
          else map_option int (read_digits (c # cs) None))"

text \<open>
  \<open>typed\<close> is the text the operator types. \<open>choice\<close> is a 32-bit \<^verbatim>\<open>int\<close>: it
  holds the number read when that number is representable. When nothing is stored
  \<open>choice\<close> keeps the indeterminate value of an uninitialised local, and what the conversion
  of an unrepresentable number leaves is undefined in C; in both cases the model takes the
  content of \<open>choice\<close> from its argument \<open>indeterminate\<close>.
\<close>

definition main_sdk :: "hardware \<Rightarrow> u32 \<Rightarrow> string \<Rightarrow> int \<Rightarrow> trace \<Rightarrow> session" where
  "main_sdk hw now typed indeterminate t =
     (let t1 = stop_mining t;
          choice = (case scanf_d typed of
                      None \<Rightarrow> indeterminate
                    | Some v \<Rightarrow>
                        if - (2 ^ 31) \<le> v \<and> v < 2 ^ 31 then v else indeterminate)
      in if choice = 1 then mining_loop_test hw now t1
         else if choice = 2 then mining_loop_real hw now t1
         else mining_loop_test hw now t1)"

section \<open>fpga\_sha256d\_miner\_test.c\<close>

definition SHA256D_BASE :: u32 where "SHA256D_BASE = 0x43C00000"

definition REG_RESET :: u32 where "REG_RESET = 0x00"
definition REG_START :: u32 where "REG_START = 0x04"
definition REG_STATUS :: u32 where "REG_STATUS = 0x08"
definition REG_GOLDEN_NONCE :: u32 where "REG_GOLDEN_NONCE = 0x0C"
definition REG_CUR_REQ :: u32 where "REG_CUR_REQ = 0x10"
definition REG_CUR_NONCE :: u32 where "REG_CUR_NONCE = 0x14"

definition REG_MID :: "nat \<Rightarrow> u32" where "REG_MID i = 0x100 + (of_nat i * 4)"
definition REG_RES :: "nat \<Rightarrow> u32" where "REG_RES i = 0x200 + (of_nat i * 4)"
definition REG_TGT :: "nat \<Rightarrow> u32" where "REG_TGT i = 0x300 + (of_nat i * 4)"

definition write_reg :: "u32 \<Rightarrow> u32 \<Rightarrow> trace \<Rightarrow> trace" where
  "write_reg offset val t = Xil_Out32 (SHA256D_BASE + offset) val t"

definition read_reg :: "u32 \<Rightarrow> hardware \<Rightarrow> trace \<Rightarrow> u32 \<times> trace" where
  "read_reg offset hw t = Xil_In32 (SHA256D_BASE + offset) hw t"

definition write_block_header :: "u32 list \<Rightarrow> u32 list \<Rightarrow> u32 list \<Rightarrow> trace \<Rightarrow> trace" where
  "write_block_header mid res tgt t =
     (let t1 = fold (\<lambda>i. write_reg (REG_MID i) (mid ! i)) [0..<8] t;
          t2 = fold (\<lambda>i. write_reg (REG_RES i) (res ! i)) [0..<3] t1
      in fold (\<lambda>i. write_reg (REG_TGT i) (tgt ! i)) [0..<8] t2)"

text \<open>The three local arrays of \<^verbatim>\<open>main\<close>.\<close>

definition main_mid :: "u32 list" where
  "main_mid =
     [0x6a09e667, 0xbb67ae85, 0x3c6ef372, 0xa54ff53a,
      0x510e527f, 0x9b05688c, 0x1f83d9ab, 0x5be0cd19]"

definition main_res :: "u32 list" where
  "main_res = [0x80000000, 0x00000000, 0x00000100]"

definition main_tgt :: "u32 list" where
  "main_tgt =
     [0x0000ffff, 0xffffffff, 0xffffffff, 0xffffffff,
      0xffffffff, 0xffffffff, 0xffffffff, 0xffffffff]"

text \<open>Steps 1 to 3 of \<^verbatim>\<open>main\<close>: load the job, pulse the reset, start the core.
  (\<^verbatim>\<open>init_platform\<close> and \<^verbatim>\<open>cleanup_platform\<close> belong to the board
  support package and do not touch the core's registers.)\<close>

definition main_setup :: "trace \<Rightarrow> trace" where
  "main_setup t =
     (let t1 = write_block_header main_mid main_res main_tgt t;
          t2 = write_reg REG_RESET 1 t1;
          t3 = usleep 1000 t2;
          t4 = write_reg REG_RESET 0 t3
      in write_reg REG_START 1 t4)"

text \<open>Step 4: one pass through the body of \<^verbatim>\<open>while (1)\<close>. The loop has no loop
  variable.\<close>

definition main_poll_body :: "hardware \<Rightarrow> trace \<Rightarrow> unit step" where
  "main_poll_body hw t =
     (let (status, t1) = read_reg REG_STATUS hw t
      in if status AND 0x01 \<noteq> 0 then
           (let (golden, t2) = read_reg REG_GOLDEN_NONCE hw t1
            in Break (GoldenNonceFound golden) t2)
         else if status AND 0x02 \<noteq> 0 then Break RangeExhausted t1
         else
           (let (cur_nonce, t2) = read_reg REG_CUR_NONCE hw t1
            in Continue () (usleep 10000 t2)))"

text \<open>The loop itself may run forever: \<open>None\<close> is the run that never leaves it.\<close>

partial_function (option) main_poll :: "hardware \<Rightarrow> nat \<Rightarrow> trace \<Rightarrow> session option" where
  "main_poll hw n t =
     (case main_poll_body hw t of
        Break out t' \<Rightarrow> Some \<lparr>result = out, passes = Suc n, events = t'\<rparr>
      | Continue u t' \<Rightarrow> main_poll hw (Suc n) t')"

declare main_poll.simps [code]

definition main_test :: "hardware \<Rightarrow> trace \<Rightarrow> session option" where
  "main_test hw t = main_poll hw 0 (main_setup t)"

section \<open>Observations on traces\<close>

text \<open>The stores of a trace, in order, as pairs of address and value.\<close>

fun writes_of :: "trace \<Rightarrow> (u32 \<times> u32) list" where
  "writes_of [] = []"
| "writes_of (Write a v # es) = (a, v) # writes_of es"
| "writes_of (Read a v # es) = writes_of es"
| "writes_of (Delay us # es) = writes_of es"

text \<open>The trace a pass through a loop body leaves, however the pass ends.\<close>

fun trace_of :: "'i step \<Rightarrow> trace" where
  "trace_of (Break out t) = t"
| "trace_of (Continue i t) = t"

text \<open>
  The register accesses of the SDK's polling loop before its final reset pulse: stores go to
  the current-nonce request register only, loads to the four status registers.
\<close>

fun poll_access :: "event \<Rightarrow> bool" where
  "poll_access (Write a v) = (a = 0x43C00010)"
| "poll_access (Read a v) =
     (a = 0x43C00000 \<or> a = 0x43C00004 \<or> a = 0x43C00008 \<or> a = 0x43C0000C)"
| "poll_access (Delay us) = True"

text \<open>The register accesses of the test driver's polling loop: loads of the status, the
  golden nonce and the current nonce; no store at all.\<close>

fun test_poll_access :: "event \<Rightarrow> bool" where
  "test_poll_access (Write a v) = False"
| "test_poll_access (Read a v) = (a = 0x43C00008 \<or> a = 0x43C0000C \<or> a = 0x43C00014)"
| "test_poll_access (Delay us) = True"

text \<open>The stores of a trace that go to the target bank (bank 3) of the SDK's map, and
  those that go to its reset control register.\<close>

definition in_target_bank :: "u32 \<Rightarrow> bool" where
  "in_target_bank a =
     (MINER_BASE_ADDR + BANK_3_OFFSET \<le> a \<and> a < MINER_BASE_ADDR + BANK_3_OFFSET + 0x100)"

definition target_stores :: "trace \<Rightarrow> (u32 \<times> u32) list" where
  "target_stores tr = filter (\<lambda>s. in_target_bank (fst s)) (writes_of tr)"

definition reset_stores :: "trace \<Rightarrow> (u32 \<times> u32) list" where
  "reset_stores tr = filter (\<lambda>s. fst s = MINER_BASE_ADDR + CTRL_SRST) (writes_of tr)"

text \<open>A core whose registers hold fixed values: the listed addresses read as listed, every
  other address reads 0. It serves as the concrete hardware of the examples.\<close>

definition fixed_regs :: "(u32 \<times> u32) list \<Rightarrow> hardware" where
  "fixed_regs rs h a = (case map_of rs a of Some v \<Rightarrow> v | None \<Rightarrow> 0)"

text \<open>A core whose registers all read 0 during its first \<open>k\<close> accesses and hold the
  listed values from then on: a status bit that becomes set while the driver polls.\<close>

definition regs_after :: "nat \<Rightarrow> (u32 \<times> u32) list \<Rightarrow> hardware" where
  "regs_after k rs h a = (if length h < k then 0 else fixed_regs rs h a)"

text \<open>
  The register map of the specification, as a predicate on events: stores go to the reset,
  start and current-nonce request registers (offsets \<open>0x000\<close>, \<open>0x004\<close>, \<open>0x010\<close>)
  or to a word of the three parameter banks, loads come from the status, golden-nonce and
  current-nonce registers (\<open>0x008\<close>, \<open>0x00C\<close>, \<open>0x014\<close>). The map the SDK uses has
  the same stores and loads from the offsets \<open>0x000\<close>, \<open>0x004\<close>, \<open>0x008\<close> and
  \<open>0x00C\<close>. Both drivers use the base address \<open>0x43C00000\<close>.
\<close>

definition bank_offsets :: "u32 list" where
  "bank_offsets =
     map (\<lambda>i. 0x100 + 4 * of_nat i) [0..<8]
     @ map (\<lambda>i. 0x200 + 4 * of_nat i) [0..<3]
     @ map (\<lambda>i. 0x300 + 4 * of_nat i) [0..<8]"

fun spec_map_access :: "event \<Rightarrow> bool" where
  "spec_map_access (Write a v) = (a - 0x43C00000 \<in> set ([0x000, 0x004, 0x010] @ bank_offsets))"
| "spec_map_access (Read a v) = (a - 0x43C00000 \<in> set [0x008, 0x00C, 0x014])"
| "spec_map_access (Delay us) = True"

fun sdk_map_access :: "event \<Rightarrow> bool" where
  "sdk_map_access (Write a v) = (a - 0x43C00000 \<in> set ([0x000, 0x004, 0x010] @ bank_offsets))"
| "sdk_map_access (Read a v) = (a - 0x43C00000 \<in> set [0x000, 0x004, 0x008, 0x00C])"
| "sdk_map_access (Delay us) = True"

text \<open>The offsets, relative to a base address, that the stores of a trace go to, in order.\<close>

definition offsets_written :: "u32 \<Rightarrow> trace \<Rightarrow> u32 list" where
  "offsets_written base tr = map (\<lambda>s. fst s - base) (writes_of tr)"

section \<open>Auxiliary facts\<close>

subsection \<open>Index ranges and array updates\<close>

lemma upt_8: "[0..<8] = [0, 1, 2, 3, 4, 5, 6, 7]"
  by (simp add: upt_rec)

lemma upt_3: "[0..<3] = [0, 1, 2]"
  by (simp add: upt_rec)

lemma fold_list_update_upt:
  "n \<le> length xs \<Longrightarrow> fold (\<lambda>i ys. ys[i := f i]) [0..<n] xs = map f [0..<n] @ drop n xs"
proof (induction n)
  case 0
  then show ?case by simp
next
  case (Suc n)
  then have "fold (\<lambda>i ys. ys[i := f i]) [0..<Suc n] xs = (map f [0..<n] @ drop n xs)[n := f n]"
    by simp
  also have "\<dots> = map f [0..<n] @ (drop n xs)[0 := f n]"
    by (simp add: list_update_append)
  also have "(drop n xs)[0 := f n] = f n # drop (Suc n) xs"
    using Suc.prems by (simp add: Cons_nth_drop_Suc [symmetric])
  finally show ?case by simp
qed

lemma fold_mid_state:
  "fold (\<lambda>i p. p\<lparr>mid_state := (mid_state p)[i := f i]\<rparr>) is p
     = p\<lparr>mid_state := fold (\<lambda>i ys. ys[i := f i]) is (mid_state p)\<rparr>"
  by (induction "is" arbitrary: p) simp_all

lemma fold_target:
  "fold (\<lambda>i p. p\<lparr>target := (target p)[i := f i]\<rparr>) is p
     = p\<lparr>target := fold (\<lambda>i ys. ys[i := f i]) is (target p)\<rparr>"
  by (induction "is" arbitrary: p) simp_all

lemma list_update_3:
  "length xs = 3 \<Longrightarrow> xs[0 := a, Suc 0 := b, 2 := c] = [a, b, c]"
  by (auto simp: length_Suc_conv eval_nat_numeral)

text \<open>Every word of the parameter block is assigned, whatever it held before.\<close>

lemma process_block_header_fields:
  assumes "length (mid_state p) = 8" "length (residual_data p) = 3" "length (target p) = 8"
  shows "process_block_header h p =
     \<lparr>mid_state = map (\<lambda>i. 0x12345678 + of_nat i) [0..<8],
      residual_data = [nonce h, 0x80000000, 0x00000140],
      target = [bits h AND 0xFFFFFF, 0xFFFFFFFF, 0xFFFFFFFF, 0xFFFFFFFF,
                0xFFFFFFFF, 0xFFFFFFFF, 0xFFFFFFFF, 0xFFFFFFFF]\<rparr>"
  using assms
  apply (simp add: process_block_header_def Let_def fold_mid_state fold_target
      fold_list_update_upt list_update_3 del: upt.simps)
  apply (simp add: upt_8)
  done

lemma process_block_header_overwrites:
  assumes "length (mid_state p) = 8" "length (residual_data p) = 3" "length (target p) = 8"
  shows "process_block_header h p = process_block_header h params_decl"
  using assms by (simp add: process_block_header_fields params_decl_def)

subsection \<open>The accessors of the SDK\<close>

lemma write_register_snoc: "write_register off v t = t @ [Write (0x43C00000 + off) v]"
  by (simp add: write_register_def Xil_Out32_def MINER_BASE_ADDR_def)

lemma read_register_snoc:
  "read_register off hw t =
     (hw t (0x43C00000 + off), t @ [Read (0x43C00000 + off) (hw t (0x43C00000 + off))])"
  by (simp add: read_register_def Xil_In32_def MINER_BASE_ADDR_def)

lemma fold_write_register:
  "fold (\<lambda>i. write_register (f i) (g i)) is t
     = t @ map (\<lambda>i. Write (0x43C00000 + f i) (g i)) is"
  by (induction "is" arbitrary: t) (simp_all add: write_register_snoc)

lemma stop_mining_events:
  "stop_mining t = t @ [Write 0x43C00000 1, Delay 1000, Write 0x43C00000 0]"
  by (simp add: stop_mining_def write_register_snoc usleep_def CTRL_SRST_def)

lemma start_mining_events: "start_mining t = t @ [Write 0x43C00004 1]"
  by (simp add: start_mining_def write_register_snoc CTRL_START_def)

lemma get_current_nonce_events:
  "get_current_nonce hw t =
     (hw (t @ [Write 0x43C00010 1, Delay 1000, Write 0x43C00010 0]) 0x43C0000C,
      t @ [Write 0x43C00010 1, Delay 1000, Write 0x43C00010 0,
           Read 0x43C0000C
             (hw (t @ [Write 0x43C00010 1, Delay 1000, Write 0x43C00010 0]) 0x43C0000C)])"
  by (simp add: get_current_nonce_def write_register_snoc read_register_snoc usleep_def
      CTRL_CURRENT_HASH_REQ_def STATUS_CURRENT_NONCE_def Let_def)

subsection \<open>The accessors of the test driver\<close>

lemma write_reg_snoc: "write_reg off v t = t @ [Write (0x43C00000 + off) v]"
  by (simp add: write_reg_def Xil_Out32_def SHA256D_BASE_def)

lemma read_reg_snoc:
  "read_reg off hw t =
     (hw t (0x43C00000 + off), t @ [Read (0x43C00000 + off) (hw t (0x43C00000 + off))])"
  by (simp add: read_reg_def Xil_In32_def SHA256D_BASE_def)

lemma fold_write_reg:
  "fold (\<lambda>i. write_reg (f i) (g i)) is t
     = t @ map (\<lambda>i. Write (0x43C00000 + f i) (g i)) is"
  by (induction "is" arbitrary: t) (simp_all add: write_reg_snoc)

lemma write_block_header_events:
  "write_block_header mid res tgt t =
     t @ map (\<lambda>i. Write (0x43C00000 + REG_MID i) (mid ! i)) [0..<8]
       @ map (\<lambda>i. Write (0x43C00000 + REG_RES i) (res ! i)) [0..<3]
       @ map (\<lambda>i. Write (0x43C00000 + REG_TGT i) (tgt ! i)) [0..<8]"
  by (simp add: write_block_header_def fold_write_reg Let_def del: upt.simps)

lemma main_setup_events:
  "main_setup t =
     write_block_header main_mid main_res main_tgt t
       @ [Write 0x43C00000 1, Delay 1000, Write 0x43C00000 0, Write 0x43C00004 1]"
  by (simp add: main_setup_def write_reg_snoc usleep_def REG_RESET_def REG_START_def Let_def)

subsection \<open>The polling loop of the SDK\<close>

lemma print_mining_status_shape:
  "\<exists>ev. print_mining_status hw t = t @ ev \<and> list_all poll_access ev"
  by (auto simp: print_mining_status_def get_current_nonce_events read_register_snoc
      get_golden_nonce_def STATUS_FOUND_def STATUS_NOT_FOUND_def STATUS_GOLDEN_NONCE_def Let_def)

lemma mining_loop_body_shape:
  "(case mining_loop_body period cap hw i t of
      Break out t' \<Rightarrow> \<exists>ev. t' = t @ ev @ [Write 0x43C00000 1, Delay 1000, Write 0x43C00000 0] \<and> list_all poll_access ev
    | Continue i' t' \<Rightarrow> \<exists>ev. t' = t @ ev \<and> list_all poll_access ev)"
proof -
  obtain ev0 where ev0: "(if i mod period = 0 then print_mining_status hw t else t) = t @ ev0"
    "list_all poll_access ev0"
    using print_mining_status_shape [of hw t] by (cases "i mod period = 0") auto
  show ?thesis
    unfolding mining_loop_body_def ev0(1)
    using ev0(2)
    by (simp add: check_found_def read_register_snoc get_golden_nonce_def stop_mining_events
        usleep_def STATUS_FOUND_def STATUS_NOT_FOUND_def STATUS_GOLDEN_NONCE_def Let_def)
qed


lemma mining_loop_while_shape:
  "\<exists>ev. events (mining_loop_while period cap hw n i t)
          = t @ ev @ [Write 0x43C00000 1, Delay 1000, Write 0x43C00000 0]
        \<and> list_all poll_access ev"
proof (induction period cap hw n i t rule: mining_loop_while.induct)
  case (1 period cap hw n i t)
  show ?case
  proof (cases "mining_loop_body period cap hw i t")
    case (Break out t')
    then show ?thesis
      using mining_loop_body_shape [where period=period and cap=cap and hw=hw and i=i and t=t]
      by (simp add: mining_loop_while.simps [of period cap hw n i t])
  next
    case (Continue i' t')
    from mining_loop_body_shape [where period=period and cap=cap and hw=hw and i=i and t=t] Continue
    obtain ev0 where ev0: "t' = t @ ev0" "list_all poll_access ev0"
      by auto
    from "1" [OF Continue]
    obtain ev where ev: "events (mining_loop_while period cap hw (Suc n) i' t')
          = t' @ ev @ [Write 0x43C00000 1, Delay 1000, Write 0x43C00000 0]"
        "list_all poll_access ev"
      by blast
    have "events (mining_loop_while period cap hw n i t)
          = t @ (ev0 @ ev) @ [Write 0x43C00000 1, Delay 1000, Write 0x43C00000 0]"
      using Continue ev(1) ev0(1)
      by (simp add: mining_loop_while.simps [of period cap hw n i t])
    moreover have "list_all poll_access (ev0 @ ev)"
      using ev0(2) ev(2) by simp
    ultimately show ?thesis by blast
  qed
qed

lemma mining_loop_body_Continue:
  assumes "mining_loop_body period cap hw iteration t = Continue i' t'"
  shows "i' = Suc iteration \<and> i' \<le> cap"
  using assms
  by (auto simp: mining_loop_body_def Let_def split: prod.splits if_splits)

lemma mining_loop_body_TimedOut:
  assumes "mining_loop_body period cap hw iteration t = Break TimedOut t'"
  shows "cap \<le> iteration"
  using assms
  by (auto simp: mining_loop_body_def Let_def split: prod.splits if_splits)

lemma mining_loop_while_passes:
  "passes (mining_loop_while period cap hw n i t) \<le> n + 1 + (cap - i)"
proof (induction period cap hw n i t rule: mining_loop_while.induct)
  case (1 period cap hw n i t)
  show ?case
  proof (cases "mining_loop_body period cap hw i t")
    case (Break out t')
    then show ?thesis
      by (simp add: mining_loop_while.simps [of period cap hw n i t])
  next
    case (Continue i' t')
    from mining_loop_body_Continue [OF Continue] have i': "i' = Suc i" "Suc i \<le> cap"
      by simp_all
    from "1" [OF Continue] i' show ?thesis
      using Continue by (simp add: mining_loop_while.simps [of period cap hw n i t])
  qed
qed

lemma mining_loop_while_TimedOut:
  "result (mining_loop_while period cap hw n i t) = TimedOut \<Longrightarrow> i \<le> cap \<Longrightarrow>
   passes (mining_loop_while period cap hw n i t) = n + 1 + (cap - i)"
proof (induction period cap hw n i t rule: mining_loop_while.induct)
  case (1 period cap hw n i t)
  show ?case
  proof (cases "mining_loop_body period cap hw i t")
    case (Break out t')
    with "1.prems" have "out = TimedOut"
      by (simp add: mining_loop_while.simps [of period cap hw n i t])
    with Break mining_loop_body_TimedOut have "cap \<le> i" by blast
    with Break "1.prems" show ?thesis
      by (simp add: mining_loop_while.simps [of period cap hw n])
  next
    case (Continue i' t')
    from mining_loop_body_Continue [OF Continue] have i': "i' = Suc i" "Suc i \<le> cap"
      by simp_all
    have "result (mining_loop_while period cap hw (Suc n) i' t') = TimedOut"
      using "1.prems"(1) Continue by (simp add: mining_loop_while.simps [of period cap hw n i t])
    from "1.IH" [OF Continue this] i' show ?thesis
      using Continue by (simp add: mining_loop_while.simps [of period cap hw n i t])
  qed
qed

lemma mining_loop_body_quiet:
  assumes "\<forall>h. hw h 0x43C00000 AND 1 = 0 \<and> hw h 0x43C00004 = 0"
  shows "(\<exists>t'. mining_loop_body period cap hw i t = Continue (Suc i) t' \<and> Suc i \<le> cap)
       \<or> (\<exists>t'. mining_loop_body period cap hw i t = Break TimedOut t' \<and> cap \<le> i)"
  using assms
  by (auto simp: mining_loop_body_def check_found_def read_register_snoc Let_def
      STATUS_FOUND_def STATUS_NOT_FOUND_def)

lemma mining_loop_while_quiet:
  "\<forall>h. hw h 0x43C00000 AND 1 = 0 \<and> hw h 0x43C00004 = 0 \<Longrightarrow>
   result (mining_loop_while period cap hw n i t) = TimedOut"
proof (induction period cap hw n i t rule: mining_loop_while.induct)
  case (1 period cap hw n i t)
  note quiet = "1.prems"
  from mining_loop_body_quiet [OF quiet, of period cap i t]
  show ?case
  proof (elim disjE exE conjE)
    fix t' assume c: "mining_loop_body period cap hw i t = Continue (Suc i) t'"
    from "1.IH" [OF c quiet] c show ?thesis
      by (simp add: mining_loop_while.simps [of period cap hw n i t])
  next
    fix t' assume "mining_loop_body period cap hw i t = Break TimedOut t'"
    then show ?thesis
      by (simp add: mining_loop_while.simps [of period cap hw n i t])
  qed
qed


subsection \<open>The polling loop of the test driver\<close>

lemmas main_poll_induct = main_poll.raw_induct [rotated 1, consumes 1, case_names step]

lemma main_poll_body_shape:
  "(case main_poll_body hw t of
      Break out t' \<Rightarrow> out \<noteq> TimedOut \<and> (\<exists>ev. t' = t @ ev \<and> list_all test_poll_access ev)
    | Continue u t' \<Rightarrow> \<exists>ev. t' = t @ ev \<and> list_all test_poll_access ev)"
  by (simp add: main_poll_body_def read_reg_snoc usleep_def Let_def
      REG_STATUS_def REG_GOLDEN_NONCE_def REG_CUR_NONCE_def)

lemma main_poll_shape:
  "main_poll hw n t = Some S \<Longrightarrow>
     result S \<noteq> TimedOut \<and> (\<exists>ev. events S = t @ ev \<and> list_all test_poll_access ev)"
proof (induction hw n t S rule: main_poll_induct)
  case (step f hw n t S)
  show ?case
  proof (cases "main_poll_body hw t")
    case (Break out t')
    with step.hyps main_poll_body_shape [where hw=hw and t=t] show ?thesis
      by auto
  next
    case (Continue u t')
    with step.hyps have "f hw (Suc n) t' = Some S" by simp
    from step.IH [OF this] main_poll_body_shape [where hw=hw and t=t] Continue
    show ?thesis by auto
  qed
qed

lemma main_poll_body_quiet:
  "hw t 0x43C00008 AND 1 = 0 \<Longrightarrow> hw t 0x43C00008 AND 2 = 0 \<Longrightarrow>
   \<exists>t'. main_poll_body hw t = Continue () t'"
  by (simp add: main_poll_body_def read_reg_snoc Let_def REG_STATUS_def)

lemma main_poll_quiet:
  "main_poll hw n t = Some S \<Longrightarrow>
   \<exists>h. hw h 0x43C00008 AND 1 \<noteq> 0 \<or> hw h 0x43C00008 AND 2 \<noteq> 0"
proof (induction hw n t S rule: main_poll_induct)
  case (step f hw n t S)
  show ?case
  proof (cases "hw t 0x43C00008 AND 1 = 0 \<and> hw t 0x43C00008 AND 2 = 0")
    case True
    then obtain t' where "main_poll_body hw t = Continue () t'"
      using main_poll_body_quiet by blast
    with step.hyps have "f hw (Suc n) t' = Some S" by simp
    from step.IH [OF this] show ?thesis .
  next
    case False
    then show ?thesis by blast
  qed
qed

subsection \<open>The two mining loops up to their polling loop\<close>

lemma params_decl_lengths:
  "length (mid_state params_decl) = 8" "length (residual_data params_decl) = 3"
  "length (target params_decl) = 8"
  by (simp_all add: params_decl_def)

lemma mining_loop_test_from_load:
  "mining_loop_test_from hw h t =
     mining_loop_while 10 1000 hw 0 0
       (t @ [Write 0x43C00300 0xFFFFFFFF, Write 0x43C00304 0xFFFFFFFF,
             Write 0x43C00308 0xFFFFFFFF, Write 0x43C0030C 0xFFFFFFFF,
             Write 0x43C00310 0xFFFFFFFF, Write 0x43C00314 0xFFFFFFFF,
             Write 0x43C00318 0xFFFFFFFF, Write 0x43C0031C 0x000000FF,
             Write 0x43C00100 0x12345678, Write 0x43C00104 0x12345679,
             Write 0x43C00108 0x1234567A, Write 0x43C0010C 0x1234567B,
             Write 0x43C00110 0x1234567C, Write 0x43C00114 0x1234567D,
             Write 0x43C00118 0x1234567E, Write 0x43C0011C 0x1234567F,
             Write 0x43C00200 (nonce h), Write 0x43C00204 0x80000000,
             Write 0x43C00208 0x00000140,
             Write 0x43C00004 1])"
  by (simp add: mining_loop_test_from_def Let_def process_block_header_fields params_decl_lengths
      set_test_difficulty_def write_target_def write_mid_state_def write_residual_data_def
      write_register_snoc start_mining_events easy_target_def upt_8 upt_3
      BANK_1_OFFSET_def BANK_2_OFFSET_def BANK_3_OFFSET_def del: upt.simps)

lemma mining_loop_real_from_load:
  "mining_loop_real_from hw h t =
     mining_loop_while 100 10000 hw 0 0
       (t @ [Write 0x43C00300 0, Write 0x43C00304 0,
             Write 0x43C00308 0, Write 0x43C0030C 0,
             Write 0x43C00310 0, Write 0x43C00314 0,
             Write 0x43C00318 0, Write 0x43C0031C 0,
             Write 0x43C00100 0x12345678, Write 0x43C00104 0x12345679,
             Write 0x43C00108 0x1234567A, Write 0x43C0010C 0x1234567B,
             Write 0x43C00110 0x1234567C, Write 0x43C00114 0x1234567D,
             Write 0x43C00118 0x1234567E, Write 0x43C0011C 0x1234567F,
             Write 0x43C00200 (nonce h), Write 0x43C00204 0x80000000,
             Write 0x43C00208 0x00000140,
             Write 0x43C00004 1])"
  by (simp add: mining_loop_real_from_def Let_def process_block_header_fields params_decl_lengths
      set_real_difficulty_def write_target_def write_mid_state_def write_residual_data_def
      write_register_snoc start_mining_events real_target_def upt_8 upt_3
      BANK_1_OFFSET_def BANK_2_OFFSET_def BANK_3_OFFSET_def del: upt.simps)

lemma mining_loop_while_ends_with_stop:
  "\<exists>t'. events (mining_loop_while period cap hw n i t)
          = t' @ [Write 0x43C00000 1, Delay 1000, Write 0x43C00000 0]"
proof -
  from mining_loop_while_shape [of period cap hw n i t]
  obtain ev where "events (mining_loop_while period cap hw n i t)
      = (t @ ev) @ [Write 0x43C00000 1, Delay 1000, Write 0x43C00000 0]"
    by auto
  then show ?thesis by blast
qed

subsection \<open>Runs of the test driver\<close>

lemma main_test_quiet:
  "main_test hw t = Some S \<Longrightarrow>
   \<exists>h. hw h 0x43C00008 AND 1 \<noteq> 0 \<or> hw h 0x43C00008 AND 2 \<noteq> 0"
  unfolding main_test_def by (rule main_poll_quiet)

lemma main_test_found_at_once:
  "main_test (fixed_regs [(0x43C00008, 1), (0x43C0000C, 0xCAFE)]) [] =
     Some \<lparr>result = GoldenNonceFound 0xCAFE, passes = 1,
           events = main_setup [] @ [Read 0x43C00008 1, Read 0x43C0000C 0xCAFE]\<rparr>"
  by (simp add: main_test_def main_poll.simps [of _ 0] main_poll_body_def read_reg_snoc
      REG_STATUS_def REG_GOLDEN_NONCE_def fixed_regs_def)

subsection \<open>Stores of a trace\<close>

lemma writes_of_append: "writes_of (xs @ ys) = writes_of xs @ writes_of ys"
  by (induction xs rule: writes_of.induct) simp_all

lemma target_stores_append: "target_stores (xs @ ys) = target_stores xs @ target_stores ys"
  by (simp add: target_stores_def writes_of_append)

lemma reset_stores_append: "reset_stores (xs @ ys) = reset_stores xs @ reset_stores ys"
  by (simp add: reset_stores_def writes_of_append)

lemma target_stores_simps:
  "target_stores [] = []"
  "target_stores (Write a v # es) =
     (if in_target_bank a then (a, v) # target_stores es else target_stores es)"
  "target_stores (Read a v # es) = target_stores es"
  "target_stores (Delay us # es) = target_stores es"
  by (simp_all add: target_stores_def)


lemma poll_access_target_stores: "list_all poll_access ev \<Longrightarrow> target_stores ev = []"
  by (induction ev rule: writes_of.induct)
    (simp_all add: target_stores_def in_target_bank_def MINER_BASE_ADDR_def BANK_3_OFFSET_def)

lemma poll_access_reset_stores: "list_all poll_access ev \<Longrightarrow> reset_stores ev = []"
  by (induction ev rule: writes_of.induct)
    (simp_all add: reset_stores_def MINER_BASE_ADDR_def CTRL_SRST_def)

lemma test_poll_access_writes: "list_all test_poll_access ev \<Longrightarrow> writes_of ev = []"
  by (induction ev rule: writes_of.induct) simp_all

lemma main_test_shape:
  assumes "main_test hw t = Some S"
  shows "result S \<noteq> TimedOut" and "\<exists>ev. events S = main_setup t @ ev \<and> writes_of ev = []"
  using main_poll_shape [OF assms [unfolded main_test_def]] test_poll_access_writes
  by blast+

lemma process_block_header_target_differs:
  "target (process_block_header header params_decl) \<noteq> easy_target"
  "target (process_block_header header params_decl) \<noteq> real_target"
  by (simp_all add: process_block_header_fields params_decl_lengths easy_target_def
      real_target_def)

subsection \<open>The pass that ends a session\<close>

lemma mining_loop_while_last_pass:
  "\<exists>i t0. mining_loop_body period cap hw i t0
      = Break (result (mining_loop_while period cap hw n iteration t))
              (events (mining_loop_while period cap hw n iteration t))"
proof (induction period cap hw n iteration t rule: mining_loop_while.induct)
  case (1 period cap hw n iteration t)
  show ?case
  proof (cases "mining_loop_body period cap hw iteration t")
    case (Break out t')
    then have "mining_loop_body period cap hw iteration t
      = Break (result (mining_loop_while period cap hw n iteration t))
              (events (mining_loop_while period cap hw n iteration t))"
      by (simp add: mining_loop_while.simps [of period cap hw n iteration t])
    then show ?thesis by blast
  next
    case (Continue i' t')
    from "1" [OF Continue] Continue show ?thesis
      by (simp add: mining_loop_while.simps [of period cap hw n iteration t])
  qed
qed

lemma mining_loop_body_found:
  assumes "mining_loop_body period cap hw i t = Break (GoldenNonceFound g) t'"
  shows "\<exists>t0 f. t' = t0 @ [Read 0x43C00000 f, Read 0x43C00008 g,
                          Write 0x43C00000 1, Delay 1000, Write 0x43C00000 0]
          \<and> f = hw t0 0x43C00000 \<and> f AND 1 \<noteq> 0
          \<and> g = hw (t0 @ [Read 0x43C00000 f]) 0x43C00008"
  using assms
  by (auto simp: mining_loop_body_def check_found_def read_register_snoc get_golden_nonce_def
      stop_mining_events usleep_def STATUS_FOUND_def STATUS_NOT_FOUND_def
      STATUS_GOLDEN_NONCE_def Let_def split: if_splits)

lemma mining_loop_while_found:
  assumes "result (mining_loop_while period cap hw n i t) = GoldenNonceFound g"
  shows "\<exists>t0 f. events (mining_loop_while period cap hw n i t)
            = t0 @ [Read 0x43C00000 f, Read 0x43C00008 g,
                    Write 0x43C00000 1, Delay 1000, Write 0x43C00000 0]
          \<and> f = hw t0 0x43C00000 \<and> f AND 1 \<noteq> 0
          \<and> g = hw (t0 @ [Read 0x43C00000 f]) 0x43C00008"
proof -
  from mining_loop_while_last_pass [of period cap hw n i t]
  obtain j t0 where "mining_loop_body period cap hw j t0
      = Break (GoldenNonceFound g) (events (mining_loop_while period cap hw n i t))"
    unfolding assms by blast
  from mining_loop_body_found [OF this] show ?thesis .
qed

lemma main_poll_body_found:
  assumes "main_poll_body hw t = Break (GoldenNonceFound g) t'"
  shows "\<exists>s. t' = t @ [Read 0x43C00008 s, Read 0x43C0000C g]
          \<and> s = hw t 0x43C00008 \<and> s AND 1 \<noteq> 0
          \<and> g = hw (t @ [Read 0x43C00008 s]) 0x43C0000C"
  using assms
  by (auto simp: main_poll_body_def read_reg_snoc REG_STATUS_def REG_GOLDEN_NONCE_def
      REG_CUR_NONCE_def Let_def split: if_splits)

lemma main_poll_found:
  "main_poll hw n t = Some S \<Longrightarrow> result S = GoldenNonceFound g \<Longrightarrow>
   \<exists>t0 s. events S = t0 @ [Read 0x43C00008 s, Read 0x43C0000C g]
          \<and> s = hw t0 0x43C00008 \<and> s AND 1 \<noteq> 0
          \<and> g = hw (t0 @ [Read 0x43C00008 s]) 0x43C0000C"
proof (induction hw n t S rule: main_poll_induct)
  case (step f hw n t S)
  show ?case
  proof (cases "main_poll_body hw t")
    case (Break out t')
    with step.hyps step.prems have "main_poll_body hw t = Break (GoldenNonceFound g) (events S)"
      by auto
    from main_poll_body_found [OF this] show ?thesis by blast
  next
    case (Continue u t')
    with step.hyps have "f hw (Suc n) t' = Some S" by simp
    from step.IH [OF this step.prems] show ?thesis .
  qed
qed

subsection \<open>The start of a session's trace\<close>

lemma mining_loop_while_first:
  "events (mining_loop_while period cap hw n i (t @ e # es)) ! length t = e"
proof -
  from mining_loop_while_shape [of period cap hw n i "t @ e # es"]
  obtain ev where "events (mining_loop_while period cap hw n i (t @ e # es))
      = t @ e # (es @ ev @ [Write 0x43C00000 1, Delay 1000, Write 0x43C00000 0])"
    by auto
  then show ?thesis by (simp only: nth_append_length)
qed

lemma mining_loop_test_first_store:
  "events (mining_loop_test hw now t) ! length t = Write 0x43C00300 0xFFFFFFFF"
  unfolding mining_loop_test_def mining_loop_test_from_load
  by (rule mining_loop_while_first)

lemma mining_loop_real_first_store:
  "events (mining_loop_real hw now t) ! length t = Write 0x43C00300 0"
  unfolding mining_loop_real_def mining_loop_real_from_load
  by (rule mining_loop_while_first)

lemma mining_loops_differ: "mining_loop_test hw now t \<noteq> mining_loop_real hw now t"
proof
  assume "mining_loop_test hw now t = mining_loop_real hw now t"
  then have "events (mining_loop_test hw now t) ! length t
      = events (mining_loop_real hw now t) ! length t"
    by simp
  then show False
    by (simp add: mining_loop_test_first_store mining_loop_real_first_store)
qed

lemma mining_loop_while_prefix:
  "take (length t) (events (mining_loop_while period cap hw n i (t @ es))) = t"
proof -
  from mining_loop_while_shape [of period cap hw n i "t @ es"]
  obtain ev where "events (mining_loop_while period cap hw n i (t @ es))
      = t @ (es @ ev @ [Write 0x43C00000 1, Delay 1000, Write 0x43C00000 0])"
    by auto
  then show ?thesis by simp
qed

lemma drop_through_prefix:
  assumes "take (length (t @ p)) es = t @ p"
  shows "drop (length t) es = p @ drop (length (t @ p)) es"
proof -
  have "es = (t @ p) @ drop (length (t @ p)) es"
    using assms by (metis append_take_drop_id)
  then have "drop (length t) es = drop (length t) (t @ (p @ drop (length (t @ p)) es))"
    by simp
  then show ?thesis by simp
qed

lemma mining_loop_test_from_first_19:
  "take 19 (drop (length t) (events (mining_loop_test_from hw h t))) =
     [Write 0x43C00300 0xFFFFFFFF, Write 0x43C00304 0xFFFFFFFF,
      Write 0x43C00308 0xFFFFFFFF, Write 0x43C0030C 0xFFFFFFFF,
      Write 0x43C00310 0xFFFFFFFF, Write 0x43C00314 0xFFFFFFFF,
      Write 0x43C00318 0xFFFFFFFF, Write 0x43C0031C 0x000000FF,
      Write 0x43C00100 0x12345678, Write 0x43C00104 0x12345679,
      Write 0x43C00108 0x1234567A, Write 0x43C0010C 0x1234567B,
      Write 0x43C00110 0x1234567C, Write 0x43C00114 0x1234567D,
      Write 0x43C00118 0x1234567E, Write 0x43C0011C 0x1234567F,
      Write 0x43C00200 (nonce h), Write 0x43C00204 0x80000000,
      Write 0x43C00208 0x00000140]"
proof -
  from mining_loop_while_shape [of 10 1000 hw 0 0]
  obtain ev where "events (mining_loop_test_from hw h t) =
     (t @ [Write 0x43C00300 0xFFFFFFFF, Write 0x43C00304 0xFFFFFFFF,
             Write 0x43C00308 0xFFFFFFFF, Write 0x43C0030C 0xFFFFFFFF,
             Write 0x43C00310 0xFFFFFFFF, Write 0x43C00314 0xFFFFFFFF,
             Write 0x43C00318 0xFFFFFFFF, Write 0x43C0031C 0x000000FF,
             Write 0x43C00100 0x12345678, Write 0x43C00104 0x12345679,
             Write 0x43C00108 0x1234567A, Write 0x43C0010C 0x1234567B,
             Write 0x43C00110 0x1234567C, Write 0x43C00114 0x1234567D,
             Write 0x43C00118 0x1234567E, Write 0x43C0011C 0x1234567F,
             Write 0x43C00200 (nonce h), Write 0x43C00204 0x80000000,
             Write 0x43C00208 0x00000140,
             Write 0x43C00004 1]) @ ev @ [Write 0x43C00000 1, Delay 1000, Write 0x43C00000 0]"
    unfolding mining_loop_test_from_load by blast
  then show ?thesis by simp
qed

lemma mining_loop_real_from_first_19:
  "take 19 (drop (length t) (events (mining_loop_real_from hw h t))) =
     [Write 0x43C00300 0, Write 0x43C00304 0,
      Write 0x43C00308 0, Write 0x43C0030C 0,
      Write 0x43C00310 0, Write 0x43C00314 0,
      Write 0x43C00318 0, Write 0x43C0031C 0,
      Write 0x43C00100 0x12345678, Write 0x43C00104 0x12345679,
      Write 0x43C00108 0x1234567A, Write 0x43C0010C 0x1234567B,
      Write 0x43C00110 0x1234567C, Write 0x43C00114 0x1234567D,
      Write 0x43C00118 0x1234567E, Write 0x43C0011C 0x1234567F,
      Write 0x43C00200 (nonce h), Write 0x43C00204 0x80000000,
      Write 0x43C00208 0x00000140]"
proof -
  from mining_loop_while_shape [of 100 10000 hw 0 0]
  obtain ev where "events (mining_loop_real_from hw h t) =
     (t @ [Write 0x43C00300 0, Write 0x43C00304 0,
             Write 0x43C00308 0, Write 0x43C0030C 0,
             Write 0x43C00310 0, Write 0x43C00314 0,
             Write 0x43C00318 0, Write 0x43C0031C 0,
             Write 0x43C00100 0x12345678, Write 0x43C00104 0x12345679,
             Write 0x43C00108 0x1234567A, Write 0x43C0010C 0x1234567B,
             Write 0x43C00110 0x1234567C, Write 0x43C00114 0x1234567D,
             Write 0x43C00118 0x1234567E, Write 0x43C0011C 0x1234567F,
             Write 0x43C00200 (nonce h), Write 0x43C00204 0x80000000,
             Write 0x43C00208 0x00000140,
             Write 0x43C00004 1]) @ ev @ [Write 0x43C00000 1, Delay 1000, Write 0x43C00000 0]"
    unfolding mining_loop_real_from_load by blast
  then show ?thesis by simp
qed

lemma bank_writer_events:
  "write_mid_state m t =
     t @ map (\<lambda>i. Write (0x43C00000 + (0x100 + 4 * of_nat i)) (m ! i)) [0..<8]"
  "write_residual_data r t =
     t @ map (\<lambda>i. Write (0x43C00000 + (0x200 + 4 * of_nat i)) (r ! i)) [0..<3]"
  "write_target g t =
     t @ map (\<lambda>i. Write (0x43C00000 + (0x300 + 4 * of_nat i)) (g ! i)) [0..<8]"
  by (simp_all add: write_mid_state_def write_residual_data_def write_target_def
      fold_write_register BANK_1_OFFSET_def BANK_2_OFFSET_def BANK_3_OFFSET_def
      mult.commute del: upt.simps)

subsection \<open>The register maps\<close>

lemma bank_offsets_eq:
  "bank_offsets = [0x100, 0x104, 0x108, 0x10C, 0x110, 0x114, 0x118, 0x11C,
                   0x200, 0x204, 0x208,
                   0x300, 0x304, 0x308, 0x30C, 0x310, 0x314, 0x318, 0x31C]"
  by (simp add: bank_offsets_def upt_8 upt_3 del: upt.simps)

lemma list_all_weaken: "list_all P xs \<Longrightarrow> (\<And>x. P x \<Longrightarrow> Q x) \<Longrightarrow> list_all Q xs"
  by (induction xs) simp_all

lemma poll_access_sdk_map: "poll_access e \<Longrightarrow> sdk_map_access e"
  by (cases e) auto

lemma test_poll_access_spec_map: "test_poll_access e \<Longrightarrow> spec_map_access e"
  by (cases e) auto

lemma main_setup_spec_map: "\<exists>ev. main_setup t = t @ ev \<and> list_all spec_map_access ev"
  by (simp add: main_setup_events write_block_header_events upt_8 upt_3 bank_offsets_eq
      REG_MID_def REG_RES_def REG_TGT_def del: upt.simps)

lemma main_test_spec_map:
  assumes "main_test hw t = Some S"
  shows "list_all spec_map_access (drop (length t) (events S))"
proof -
  from main_setup_spec_map [of t]
  obtain ev0 where ev0: "main_setup t = t @ ev0" "list_all spec_map_access ev0" by blast
  from main_poll_shape [OF assms [unfolded main_test_def]]
  obtain ev where ev: "events S = main_setup t @ ev" "list_all test_poll_access ev" by blast
  have "list_all spec_map_access ev"
    using ev(2) test_poll_access_spec_map by (rule list_all_weaken)
  with ev0 ev(1) show ?thesis by simp
qed

lemma mining_loop_test_sdk_map:
  "list_all sdk_map_access (drop (length t) (events (mining_loop_test hw now t)))"
proof -
  obtain t0 where t0: "mining_loop_test hw now t = mining_loop_while 10 1000 hw 0 0 (t @ t0)"
    "list_all sdk_map_access t0"
    unfolding mining_loop_test_def mining_loop_test_from_load
    by (simp add: bank_offsets_eq)
  from mining_loop_while_shape [of 10 1000 hw 0 0 "t @ t0"]
  obtain ev where ev: "events (mining_loop_test hw now t)
      = t @ t0 @ ev @ [Write 0x43C00000 1, Delay 1000, Write 0x43C00000 0]"
    "list_all poll_access ev"
    unfolding t0(1) by auto
  have "list_all sdk_map_access ev"
    using ev(2) poll_access_sdk_map by (rule list_all_weaken)
  with t0(2) show ?thesis unfolding ev(1) by simp
qed

lemma mining_loop_real_sdk_map:
  "list_all sdk_map_access (drop (length t) (events (mining_loop_real hw now t)))"
proof -
  obtain t0 where t0: "mining_loop_real hw now t = mining_loop_while 100 10000 hw 0 0 (t @ t0)"
    "list_all sdk_map_access t0"
    unfolding mining_loop_real_def mining_loop_real_from_load
    by (simp add: bank_offsets_eq)
  from mining_loop_while_shape [of 100 10000 hw 0 0 "t @ t0"]
  obtain ev where ev: "events (mining_loop_real hw now t)
      = t @ t0 @ ev @ [Write 0x43C00000 1, Delay 1000, Write 0x43C00000 0]"
    "list_all poll_access ev"
    unfolding t0(1) by auto
  have "list_all sdk_map_access ev"
    using ev(2) poll_access_sdk_map by (rule list_all_weaken)
  with t0(2) show ?thesis unfolding ev(1) by simp
qed

lemma main_sdk_sdk_map:
  "list_all sdk_map_access (drop (length t) (events (main_sdk hw now typed indeterminate t)))"
proof -
  let ?p = "[Write 0x43C00000 1, Delay 1000, Write 0x43C00000 0]"
  have t1: "stop_mining t = t @ ?p"
    by (rule stop_mining_events)
  have p: "list_all sdk_map_access ?p"
    by simp
  have "take (length (t @ ?p)) (events (mining_loop_test hw now (t @ ?p))) = t @ ?p"
    unfolding mining_loop_test_def mining_loop_test_from_load
    by (rule mining_loop_while_prefix)
  from drop_through_prefix [OF this] mining_loop_test_sdk_map [of "t @ ?p" hw now] p
  have test: "list_all sdk_map_access (drop (length t) (events (mining_loop_test hw now (t @ ?p))))"
    by simp
  have "take (length (t @ ?p)) (events (mining_loop_real hw now (t @ ?p))) = t @ ?p"
    unfolding mining_loop_real_def mining_loop_real_from_load
    by (rule mining_loop_while_prefix)
  from drop_through_prefix [OF this] mining_loop_real_sdk_map [of "t @ ?p" hw now] p
  have real: "list_all sdk_map_access (drop (length t) (events (mining_loop_real hw now (t @ ?p))))"
    by simp
  from test real show ?thesis
    by (simp add: main_sdk_def Let_def t1)
qed

subsection \<open>The operator's selection\<close>

lemma main_sdk_stored:
  assumes "scanf_d typed = Some v" "- (2 ^ 31) \<le> v" "v < 2 ^ 31"
  shows "main_sdk hw now typed indeterminate t =
     (if v = 2 then mining_loop_real hw now (stop_mining t)
      else mining_loop_test hw now (stop_mining t))"
  using assms by (simp add: main_sdk_def Let_def)

lemma main_sdk_not_stored:
  assumes "scanf_d typed = None \<or> (\<exists>v. scanf_d typed = Some v \<and> \<not> (- (2 ^ 31) \<le> v \<and> v < 2 ^ 31))"
  shows "main_sdk hw now typed indeterminate t =
     (if indeterminate = 2 then mining_loop_real hw now (stop_mining t)
      else mining_loop_test hw now (stop_mining t))"
  using assms by (auto simp: main_sdk_def Let_def)

lemma scanf_d_examples:
  "scanf_d ''1'' = Some 1" "scanf_d ''2'' = Some 2" "scanf_d ''7'' = Some 7"
  "scanf_d ''abc'' = None" "scanf_d ''4294967298'' = Some 4294967298"
  by (simp_all add: scanf_d_def isspace_def digit_of_def Let_def)

section \<open>The claims\<close>

text \<open>
  C1, as the code has it. In the SDK, for every behaviour of the status registers, the polling
  loop of \<open>mining_loop_test\<close> (cap 1000) and of \<open>mining_loop_real\<close> (cap 10000) ends
  after at most cap + 1 passes; a session that times out has made exactly cap + 1 passes and
  ends with the accesses of \<open>stop_mining\<close>; and when neither the found bit nor the
  not-found register is ever set, the session times out. The polling loop of the test driver
  has no cap: a session that ends never ends as \<open>TimedOut\<close>, and it ends only if some
  load of the status register shows bit 0 or bit 1.
\<close>

theorem sdk_polling_loop_capped:
  "passes (mining_loop_test hw now t) \<le> 1000 + 1
   \<and> passes (mining_loop_real hw now t) \<le> 10000 + 1
   \<and> (result (mining_loop_test hw now t) = TimedOut \<longrightarrow>
        passes (mining_loop_test hw now t) = 1000 + 1
        \<and> (\<exists>t'. events (mining_loop_test hw now t) = t' @ stop_mining []))
   \<and> (result (mining_loop_real hw now t) = TimedOut \<longrightarrow>
        passes (mining_loop_real hw now t) = 10000 + 1
        \<and> (\<exists>t'. events (mining_loop_real hw now t) = t' @ stop_mining []))
   \<and> ((\<forall>h. hw h (MINER_BASE_ADDR + STATUS_FOUND) AND 1 = 0
            \<and> hw h (MINER_BASE_ADDR + STATUS_NOT_FOUND) = 0) \<longrightarrow>
        result (mining_loop_test hw now t) = TimedOut
        \<and> result (mining_loop_real hw now t) = TimedOut)
   \<and> (main_test hw t = Some S \<longrightarrow>
        result S \<noteq> TimedOut
        \<and> (\<exists>h. hw h (SHA256D_BASE + REG_STATUS) AND 1 \<noteq> 0
               \<or> hw h (SHA256D_BASE + REG_STATUS) AND 2 \<noteq> 0))"
proof (intro conjI impI)
  show "passes (mining_loop_test hw now t) \<le> 1000 + 1"
    unfolding mining_loop_test_def mining_loop_test_from_load
    using mining_loop_while_passes [of 10 1000 hw 0 0] by simp
  show "passes (mining_loop_real hw now t) \<le> 10000 + 1"
    unfolding mining_loop_real_def mining_loop_real_from_load
    using mining_loop_while_passes [of 100 10000 hw 0 0] by simp
next
  assume "result (mining_loop_test hw now t) = TimedOut"
  then show "passes (mining_loop_test hw now t) = 1000 + 1"
    unfolding mining_loop_test_def mining_loop_test_from_load
    using mining_loop_while_TimedOut [of 10 1000 hw 0 0] by simp
next
  show "\<exists>t'. events (mining_loop_test hw now t) = t' @ stop_mining []"
    unfolding mining_loop_test_def mining_loop_test_from_load stop_mining_events
    using mining_loop_while_ends_with_stop [of 10 1000 hw 0 0] by simp
next
  assume "result (mining_loop_real hw now t) = TimedOut"
  then show "passes (mining_loop_real hw now t) = 10000 + 1"
    unfolding mining_loop_real_def mining_loop_real_from_load
    using mining_loop_while_TimedOut [of 100 10000 hw 0 0] by simp
next
  show "\<exists>t'. events (mining_loop_real hw now t) = t' @ stop_mining []"
    unfolding mining_loop_real_def mining_loop_real_from_load stop_mining_events
    using mining_loop_while_ends_with_stop [of 100 10000 hw 0 0] by simp
next
  assume q: "\<forall>h. hw h (MINER_BASE_ADDR + STATUS_FOUND) AND 1 = 0
            \<and> hw h (MINER_BASE_ADDR + STATUS_NOT_FOUND) = 0"
  then have q': "\<forall>h. hw h 0x43C00000 AND 1 = 0 \<and> hw h 0x43C00004 = 0"
    by (simp add: MINER_BASE_ADDR_def STATUS_FOUND_def STATUS_NOT_FOUND_def)
  show "result (mining_loop_test hw now t) = TimedOut"
    unfolding mining_loop_test_def mining_loop_test_from_load
    by (rule mining_loop_while_quiet [OF q'])
  show "result (mining_loop_real hw now t) = TimedOut"
    unfolding mining_loop_real_def mining_loop_real_from_load
    by (rule mining_loop_while_quiet [OF q'])
next
  assume S: "main_test hw t = Some S"
  then show "result S \<noteq> TimedOut"
    unfolding main_test_def using main_poll_shape by blast
  from main_test_quiet [OF S]
  show "\<exists>h. hw h (SHA256D_BASE + REG_STATUS) AND 1 \<noteq> 0
               \<or> hw h (SHA256D_BASE + REG_STATUS) AND 2 \<noteq> 0"
    by (simp add: SHA256D_BASE_def REG_STATUS_def)
qed

theorem sdk_polling_loop_capped_witness:
  "result (mining_loop_test (fixed_regs []) 0 []) = TimedOut
   \<and> passes (mining_loop_test (fixed_regs []) 0 []) = 1001
   \<and> (\<exists>t'. events (mining_loop_test (fixed_regs []) 0 []) = t' @ stop_mining [])
   \<and> result (mining_loop_real (fixed_regs []) 0 []) = TimedOut
   \<and> passes (mining_loop_real (fixed_regs []) 0 []) = 10001
   \<and> (\<exists>S. main_test (fixed_regs [(0x43C00008, 1), (0x43C0000C, 0xCAFE)]) [] = Some S
          \<and> result S \<noteq> TimedOut)"
  using sdk_polling_loop_capped [of "fixed_regs []" 0 "[]"]
    sdk_polling_loop_capped [of "fixed_regs [(0x43C00008, 1), (0x43C0000C, 0xCAFE)]" 0 "[]",
      where S = "\<lparr>result = GoldenNonceFound 0xCAFE, passes = 1,
           events = main_setup [] @ [Read 0x43C00008 1, Read 0x43C0000C 0xCAFE]\<rparr>"]
    main_test_found_at_once
  by (simp add: fixed_regs_def)

text \<open>
  C1 as stated fails on the test driver: with a status register that always reads 0 its
  polling loop never ends.
\<close>

theorem test_driver_poll_unbounded: "main_test (fixed_regs []) [] = None"
proof (cases "main_test (fixed_regs []) []")
  case None
  then show ?thesis .
next
  case (Some S)
  from main_test_quiet [OF this] show ?thesis by (simp add: fixed_regs_def)
qed

text \<open>
  C2, as the code has it. Every access goes to \<open>0x43C00000\<close> plus an offset. The test
  driver follows the map of the specification: reset and start are stored at \<open>0x000\<close> and
  \<open>0x004\<close>, the status word with the found and exhausted bits is loaded from \<open>0x008\<close>,
  the golden nonce from \<open>0x00C\<close>, the current nonce from \<open>0x014\<close>, and every access of a
  run is on that map. The SDK stores its controls at the same offsets (reset \<open>0x000\<close>, start
  \<open>0x004\<close>, current-nonce request \<open>0x010\<close>) but loads the found status from
  \<open>0x000\<close>, the not-found status from \<open>0x004\<close>, the golden nonce from \<open>0x008\<close> and
  the current nonce from \<open>0x00C\<close>; every access of a run of its \<open>main\<close> is on that map.
\<close>

theorem register_map_of_each_driver:
  "main_setup t =
     write_block_header main_mid main_res main_tgt t
       @ [Write (SHA256D_BASE + 0x000) 1, Delay 1000, Write (SHA256D_BASE + 0x000) 0,
          Write (SHA256D_BASE + 0x004) 1]
   \<and> trace_of (main_poll_body hw t) =
       (let status = hw t (SHA256D_BASE + 0x008);
            t1 = t @ [Read (SHA256D_BASE + 0x008) status]
        in if status AND 1 \<noteq> 0
           then t1 @ [Read (SHA256D_BASE + 0x00C) (hw t1 (SHA256D_BASE + 0x00C))]
           else if status AND 2 \<noteq> 0 then t1
           else t1 @ [Read (SHA256D_BASE + 0x014) (hw t1 (SHA256D_BASE + 0x014)), Delay 10000])
   \<and> (main_test hw t = Some S \<longrightarrow> list_all spec_map_access (drop (length t) (events S)))
   \<and> stop_mining t =
       t @ [Write (MINER_BASE_ADDR + 0x000) 1, Delay 1000, Write (MINER_BASE_ADDR + 0x000) 0]
   \<and> start_mining t = t @ [Write (MINER_BASE_ADDR + 0x004) 1]
   \<and> check_found hw t =
       (hw t (MINER_BASE_ADDR + 0x000) AND 1,
        t @ [Read (MINER_BASE_ADDR + 0x000) (hw t (MINER_BASE_ADDR + 0x000))])
   \<and> read_register STATUS_NOT_FOUND hw t =
       (hw t (MINER_BASE_ADDR + 0x004),
        t @ [Read (MINER_BASE_ADDR + 0x004) (hw t (MINER_BASE_ADDR + 0x004))])
   \<and> get_golden_nonce hw t =
       (hw t (MINER_BASE_ADDR + 0x008),
        t @ [Read (MINER_BASE_ADDR + 0x008) (hw t (MINER_BASE_ADDR + 0x008))])
   \<and> get_current_nonce hw t =
       (let t3 = t @ [Write (MINER_BASE_ADDR + 0x010) 1, Delay 1000,
                      Write (MINER_BASE_ADDR + 0x010) 0]
        in (hw t3 (MINER_BASE_ADDR + 0x00C),
            t3 @ [Read (MINER_BASE_ADDR + 0x00C) (hw t3 (MINER_BASE_ADDR + 0x00C))]))
   \<and> list_all sdk_map_access
         (drop (length t) (events (main_sdk hw now typed indeterminate t)))"
proof (intro conjI impI)
  show "main_setup t =
     write_block_header main_mid main_res main_tgt t
       @ [Write (SHA256D_BASE + 0x000) 1, Delay 1000, Write (SHA256D_BASE + 0x000) 0,
          Write (SHA256D_BASE + 0x004) 1]"
    by (simp add: main_setup_events SHA256D_BASE_def)
  show "trace_of (main_poll_body hw t) =
       (let status = hw t (SHA256D_BASE + 0x008);
            t1 = t @ [Read (SHA256D_BASE + 0x008) status]
        in if status AND 1 \<noteq> 0
           then t1 @ [Read (SHA256D_BASE + 0x00C) (hw t1 (SHA256D_BASE + 0x00C))]
           else if status AND 2 \<noteq> 0 then t1
           else t1 @ [Read (SHA256D_BASE + 0x014) (hw t1 (SHA256D_BASE + 0x014)), Delay 10000])"
    by (simp add: main_poll_body_def read_reg_snoc usleep_def SHA256D_BASE_def REG_STATUS_def
        REG_GOLDEN_NONCE_def REG_CUR_NONCE_def Let_def)
  show "stop_mining t =
       t @ [Write (MINER_BASE_ADDR + 0x000) 1, Delay 1000, Write (MINER_BASE_ADDR + 0x000) 0]"
    by (simp add: stop_mining_events MINER_BASE_ADDR_def)
  show "start_mining t = t @ [Write (MINER_BASE_ADDR + 0x004) 1]"
    by (simp add: start_mining_events MINER_BASE_ADDR_def)
  show "check_found hw t =
       (hw t (MINER_BASE_ADDR + 0x000) AND 1,
        t @ [Read (MINER_BASE_ADDR + 0x000) (hw t (MINER_BASE_ADDR + 0x000))])"
    by (simp add: check_found_def read_register_snoc STATUS_FOUND_def MINER_BASE_ADDR_def)
  show "read_register STATUS_NOT_FOUND hw t =
       (hw t (MINER_BASE_ADDR + 0x004),
        t @ [Read (MINER_BASE_ADDR + 0x004) (hw t (MINER_BASE_ADDR + 0x004))])"
    by (simp add: read_register_snoc STATUS_NOT_FOUND_def MINER_BASE_ADDR_def)
  show "get_golden_nonce hw t =
       (hw t (MINER_BASE_ADDR + 0x008),
        t @ [Read (MINER_BASE_ADDR + 0x008) (hw t (MINER_BASE_ADDR + 0x008))])"
    by (simp add: get_golden_nonce_def read_register_snoc STATUS_GOLDEN_NONCE_def
        MINER_BASE_ADDR_def)
  show "get_current_nonce hw t =
       (let t3 = t @ [Write (MINER_BASE_ADDR + 0x010) 1, Delay 1000,
                      Write (MINER_BASE_ADDR + 0x010) 0]
        in (hw t3 (MINER_BASE_ADDR + 0x00C),
            t3 @ [Read (MINER_BASE_ADDR + 0x00C) (hw t3 (MINER_BASE_ADDR + 0x00C))]))"
    by (simp add: get_current_nonce_events MINER_BASE_ADDR_def Let_def)
  show "list_all sdk_map_access
         (drop (length t) (events (main_sdk hw now typed indeterminate t)))"
    by (rule main_sdk_sdk_map)
next
  assume "main_test hw t = Some S"
  then show "list_all spec_map_access (drop (length t) (events S))"
    by (rule main_test_spec_map)
qed

theorem register_map_of_each_driver_witness:
  "main_test (fixed_regs [(0x43C00008, 1), (0x43C0000C, 0xCAFE)]) [] =
     Some \<lparr>result = GoldenNonceFound 0xCAFE, passes = 1,
           events = main_setup [] @ [Read 0x43C00008 1, Read 0x43C0000C 0xCAFE]\<rparr>
   \<and> list_all spec_map_access (main_setup [] @ [Read 0x43C00008 1, Read 0x43C0000C 0xCAFE])"
proof -
  let ?hw = "fixed_regs [(0x43C00008, 1), (0x43C0000C, 0xCAFE)]"
  let ?S = "\<lparr>result = GoldenNonceFound 0xCAFE, passes = 1,
           events = main_setup [] @ [Read 0x43C00008 1, Read 0x43C0000C 0xCAFE]\<rparr>"
  have m: "main_test ?hw [] = Some ?S"
    by (rule main_test_found_at_once)
  have "list_all spec_map_access (drop (length ([] :: trace)) (events ?S))"
    by (rule register_map_of_each_driver [of "[]" ?hw ?S,
          THEN conjunct2, THEN conjunct2, THEN conjunct1, THEN mp, OF m])
  with m show ?thesis by simp
qed

text \<open>
  C2 as stated fails on the SDK: it loads the found status from offset \<open>0x000\<close>, the golden
  nonce from \<open>0x008\<close> and the current nonce from \<open>0x00C\<close>, not from \<open>0x008\<close>,
  \<open>0x00C\<close> and \<open>0x014\<close>.
\<close>

theorem sdk_status_offsets_differ:
  "snd (check_found (fixed_regs []) []) = [Read (MINER_BASE_ADDR + 0x000) 0]
   \<and> snd (get_golden_nonce (fixed_regs []) []) = [Read (MINER_BASE_ADDR + 0x008) 0]
   \<and> snd (get_current_nonce (fixed_regs []) []) =
       [Write (MINER_BASE_ADDR + 0x010) 1, Delay 1000, Write (MINER_BASE_ADDR + 0x010) 0,
        Read (MINER_BASE_ADDR + 0x00C) 0]
   \<and> Read (MINER_BASE_ADDR + 0x000) 0 \<noteq> Read (MINER_BASE_ADDR + 0x008) 0
   \<and> Read (MINER_BASE_ADDR + 0x008) 0 \<noteq> Read (MINER_BASE_ADDR + 0x00C) 0
   \<and> Read (MINER_BASE_ADDR + 0x00C) 0 \<noteq> Read (MINER_BASE_ADDR + 0x014) 0
   \<and> \<not> list_all spec_map_access (snd (check_found (fixed_regs []) []))"
  by (simp add: check_found_def get_golden_nonce_def get_current_nonce_events
      read_register_snoc STATUS_FOUND_def STATUS_GOLDEN_NONCE_def MINER_BASE_ADDR_def
      fixed_regs_def)

text \<open>
  C3, as the code has it. \<open>write_block_header\<close> of the test driver stores to exactly 19
  distinct offsets, each once, at bank base plus four times the index, in the order midstate
  (\<open>0x100\<close>, indices 0 to 7), residual (\<open>0x200\<close>, 0 to 2), target (\<open>0x300\<close>, 0 to 7).
  Each of the SDK's three bank writers stores its bank by the same formula; the SDK's mining
  loops call them so that the first 19 stores of a session go to the same 19 distinct offsets,
  each once, in the order target, midstate, residual, and the start pulse follows.
\<close>

theorem parameter_load_offsets:
  "write_block_header mid res tgt t =
     t @ map (\<lambda>i. Write (SHA256D_BASE + (0x100 + 4 * of_nat i)) (mid ! i)) [0..<8]
       @ map (\<lambda>i. Write (SHA256D_BASE + (0x200 + 4 * of_nat i)) (res ! i)) [0..<3]
       @ map (\<lambda>i. Write (SHA256D_BASE + (0x300 + 4 * of_nat i)) (tgt ! i)) [0..<8]
   \<and> offsets_written SHA256D_BASE (drop (length t) (write_block_header mid res tgt t))
       = map (\<lambda>i. 0x100 + 4 * of_nat i) [0..<8] @ map (\<lambda>i. 0x200 + 4 * of_nat i) [0..<3]
         @ map (\<lambda>i. 0x300 + 4 * of_nat i) [0..<8]
   \<and> length (offsets_written SHA256D_BASE
         (drop (length t) (write_block_header mid res tgt t))) = 19
   \<and> distinct (offsets_written SHA256D_BASE
         (drop (length t) (write_block_header mid res tgt t)))
   \<and> write_mid_state mid t =
       t @ map (\<lambda>i. Write (MINER_BASE_ADDR + (BANK_1_OFFSET + 4 * of_nat i)) (mid ! i)) [0..<8]
   \<and> write_residual_data res t =
       t @ map (\<lambda>i. Write (MINER_BASE_ADDR + (BANK_2_OFFSET + 4 * of_nat i)) (res ! i)) [0..<3]
   \<and> write_target tgt t =
       t @ map (\<lambda>i. Write (MINER_BASE_ADDR + (BANK_3_OFFSET + 4 * of_nat i)) (tgt ! i)) [0..<8]
   \<and> take 19 (drop (length t) (events (mining_loop_test_from hw header t))) =
       map (\<lambda>i. Write (MINER_BASE_ADDR + (0x300 + 4 * of_nat i)) (easy_target ! i)) [0..<8]
       @ map (\<lambda>i. Write (MINER_BASE_ADDR + (0x100 + 4 * of_nat i))
                (mid_state (process_block_header header params_decl) ! i)) [0..<8]
       @ map (\<lambda>i. Write (MINER_BASE_ADDR + (0x200 + 4 * of_nat i))
                (residual_data (process_block_header header params_decl) ! i)) [0..<3]
   \<and> take 19 (drop (length t) (events (mining_loop_real_from hw header t))) =
       map (\<lambda>i. Write (MINER_BASE_ADDR + (0x300 + 4 * of_nat i)) (real_target ! i)) [0..<8]
       @ map (\<lambda>i. Write (MINER_BASE_ADDR + (0x100 + 4 * of_nat i))
                (mid_state (process_block_header header params_decl) ! i)) [0..<8]
       @ map (\<lambda>i. Write (MINER_BASE_ADDR + (0x200 + 4 * of_nat i))
                (residual_data (process_block_header header params_decl) ! i)) [0..<3]
   \<and> offsets_written MINER_BASE_ADDR
         (take 19 (drop (length t) (events (mining_loop_test_from hw header t))))
       = map (\<lambda>i. 0x300 + 4 * of_nat i) [0..<8] @ map (\<lambda>i. 0x100 + 4 * of_nat i) [0..<8]
         @ map (\<lambda>i. 0x200 + 4 * of_nat i) [0..<3]
   \<and> offsets_written MINER_BASE_ADDR
         (take 19 (drop (length t) (events (mining_loop_real_from hw header t))))
       = map (\<lambda>i. 0x300 + 4 * of_nat i) [0..<8] @ map (\<lambda>i. 0x100 + 4 * of_nat i) [0..<8]
         @ map (\<lambda>i. 0x200 + 4 * of_nat i) [0..<3]
   \<and> distinct (map (\<lambda>i. 0x300 + 4 * of_nat i) [0..<8] @ map (\<lambda>i. 0x100 + 4 * of_nat i) [0..<8]
         @ map (\<lambda>i. 0x200 + 4 * of_nat i) [0..<3] :: u32 list)
   \<and> events (mining_loop_test_from hw header t) ! (length t + 19)
       = Write (MINER_BASE_ADDR + CTRL_START) 1"
proof (intro conjI)
  show "write_block_header mid res tgt t =
     t @ map (\<lambda>i. Write (SHA256D_BASE + (0x100 + 4 * of_nat i)) (mid ! i)) [0..<8]
       @ map (\<lambda>i. Write (SHA256D_BASE + (0x200 + 4 * of_nat i)) (res ! i)) [0..<3]
       @ map (\<lambda>i. Write (SHA256D_BASE + (0x300 + 4 * of_nat i)) (tgt ! i)) [0..<8]"
    by (simp add: write_block_header_events SHA256D_BASE_def REG_MID_def REG_RES_def REG_TGT_def
        mult.commute del: upt.simps)
  have ow: "offsets_written SHA256D_BASE (drop (length t) (write_block_header mid res tgt t))
      = [0x100, 0x104, 0x108, 0x10C, 0x110, 0x114, 0x118, 0x11C,
         0x200, 0x204, 0x208,
         0x300, 0x304, 0x308, 0x30C, 0x310, 0x314, 0x318, 0x31C]"
    by (simp add: write_block_header_events offsets_written_def SHA256D_BASE_def REG_MID_def
        REG_RES_def REG_TGT_def upt_8 upt_3 del: upt.simps)
  show "offsets_written SHA256D_BASE (drop (length t) (write_block_header mid res tgt t))
       = map (\<lambda>i. 0x100 + 4 * of_nat i) [0..<8] @ map (\<lambda>i. 0x200 + 4 * of_nat i) [0..<3]
         @ map (\<lambda>i. 0x300 + 4 * of_nat i) [0..<8]"
    unfolding ow by (simp add: upt_8 upt_3 del: upt.simps)
  show "length (offsets_written SHA256D_BASE
         (drop (length t) (write_block_header mid res tgt t))) = 19"
    unfolding ow by simp
  show "distinct (offsets_written SHA256D_BASE
         (drop (length t) (write_block_header mid res tgt t)))"
    unfolding ow by simp
next
  show "write_mid_state mid t =
       t @ map (\<lambda>i. Write (MINER_BASE_ADDR + (BANK_1_OFFSET + 4 * of_nat i)) (mid ! i)) [0..<8]"
    by (simp add: bank_writer_events MINER_BASE_ADDR_def BANK_1_OFFSET_def del: upt.simps)
  show "write_residual_data res t =
       t @ map (\<lambda>i. Write (MINER_BASE_ADDR + (BANK_2_OFFSET + 4 * of_nat i)) (res ! i)) [0..<3]"
    by (simp add: bank_writer_events MINER_BASE_ADDR_def BANK_2_OFFSET_def del: upt.simps)
  show "write_target tgt t =
       t @ map (\<lambda>i. Write (MINER_BASE_ADDR + (BANK_3_OFFSET + 4 * of_nat i)) (tgt ! i)) [0..<8]"
    by (simp add: bank_writer_events MINER_BASE_ADDR_def BANK_3_OFFSET_def del: upt.simps)
next
  show "take 19 (drop (length t) (events (mining_loop_test_from hw header t))) =
       map (\<lambda>i. Write (MINER_BASE_ADDR + (0x300 + 4 * of_nat i)) (easy_target ! i)) [0..<8]
       @ map (\<lambda>i. Write (MINER_BASE_ADDR + (0x100 + 4 * of_nat i))
                (mid_state (process_block_header header params_decl) ! i)) [0..<8]
       @ map (\<lambda>i. Write (MINER_BASE_ADDR + (0x200 + 4 * of_nat i))
                (residual_data (process_block_header header params_decl) ! i)) [0..<3]"
    unfolding mining_loop_test_from_first_19
    by (simp add: process_block_header_fields params_decl_lengths easy_target_def
        MINER_BASE_ADDR_def upt_8 upt_3 del: upt.simps)
  show "take 19 (drop (length t) (events (mining_loop_real_from hw header t))) =
       map (\<lambda>i. Write (MINER_BASE_ADDR + (0x300 + 4 * of_nat i)) (real_target ! i)) [0..<8]
       @ map (\<lambda>i. Write (MINER_BASE_ADDR + (0x100 + 4 * of_nat i))
                (mid_state (process_block_header header params_decl) ! i)) [0..<8]
       @ map (\<lambda>i. Write (MINER_BASE_ADDR + (0x200 + 4 * of_nat i))
                (residual_data (process_block_header header params_decl) ! i)) [0..<3]"
    unfolding mining_loop_real_from_first_19
    by (simp add: process_block_header_fields params_decl_lengths real_target_def
        MINER_BASE_ADDR_def upt_8 upt_3 del: upt.simps)
  show "offsets_written MINER_BASE_ADDR
         (take 19 (drop (length t) (events (mining_loop_test_from hw header t))))
       = map (\<lambda>i. 0x300 + 4 * of_nat i) [0..<8] @ map (\<lambda>i. 0x100 + 4 * of_nat i) [0..<8]
         @ map (\<lambda>i. 0x200 + 4 * of_nat i) [0..<3]"
    unfolding mining_loop_test_from_first_19
    by (simp add: offsets_written_def MINER_BASE_ADDR_def upt_8 upt_3 del: upt.simps)
  show "offsets_written MINER_BASE_ADDR
         (take 19 (drop (length t) (events (mining_loop_real_from hw header t))))
       = map (\<lambda>i. 0x300 + 4 * of_nat i) [0..<8] @ map (\<lambda>i. 0x100 + 4 * of_nat i) [0..<8]
         @ map (\<lambda>i. 0x200 + 4 * of_nat i) [0..<3]"
    unfolding mining_loop_real_from_first_19
    by (simp add: offsets_written_def MINER_BASE_ADDR_def upt_8 upt_3 del: upt.simps)
  show "distinct (map (\<lambda>i. 0x300 + 4 * of_nat i) [0..<8] @ map (\<lambda>i. 0x100 + 4 * of_nat i) [0..<8]
         @ map (\<lambda>i. 0x200 + 4 * of_nat i) [0..<3] :: u32 list)"
    by (simp add: upt_8 upt_3 del: upt.simps)
next
  from mining_loop_while_shape [of 10 1000 hw 0 0]
  obtain ev where "events (mining_loop_test_from hw header t) =
     (t @ [Write 0x43C00300 0xFFFFFFFF, Write 0x43C00304 0xFFFFFFFF,
             Write 0x43C00308 0xFFFFFFFF, Write 0x43C0030C 0xFFFFFFFF,
             Write 0x43C00310 0xFFFFFFFF, Write 0x43C00314 0xFFFFFFFF,
             Write 0x43C00318 0xFFFFFFFF, Write 0x43C0031C 0x000000FF,
             Write 0x43C00100 0x12345678, Write 0x43C00104 0x12345679,
             Write 0x43C00108 0x1234567A, Write 0x43C0010C 0x1234567B,
             Write 0x43C00110 0x1234567C, Write 0x43C00114 0x1234567D,
             Write 0x43C00118 0x1234567E, Write 0x43C0011C 0x1234567F,
             Write 0x43C00200 (nonce header), Write 0x43C00204 0x80000000,
             Write 0x43C00208 0x00000140,
             Write 0x43C00004 1]) @ ev @ [Write 0x43C00000 1, Delay 1000, Write 0x43C00000 0]"
    unfolding mining_loop_test_from_load by blast
  then show "events (mining_loop_test_from hw header t) ! (length t + 19)
       = Write (MINER_BASE_ADDR + CTRL_START) 1"
    by (simp add: nth_append MINER_BASE_ADDR_def CTRL_START_def)
qed

text \<open>
  C3 as stated fails on the SDK: the parameter load of \<open>mining_loop_test\<close> begins with the
  target bank, not with the midstate bank.
\<close>

theorem sdk_load_starts_with_target_bank:
  "offsets_written MINER_BASE_ADDR (take 19 (events (mining_loop_test (fixed_regs []) 0 [])))
     = [0x300, 0x304, 0x308, 0x30C, 0x310, 0x314, 0x318, 0x31C,
        0x100, 0x104, 0x108, 0x10C, 0x110, 0x114, 0x118, 0x11C,
        0x200, 0x204, 0x208]
   \<and> offsets_written MINER_BASE_ADDR (take 19 (events (mining_loop_test (fixed_regs []) 0 [])))
     \<noteq> [0x100, 0x104, 0x108, 0x10C, 0x110, 0x114, 0x118, 0x11C,
        0x200, 0x204, 0x208,
        0x300, 0x304, 0x308, 0x30C, 0x310, 0x314, 0x318, 0x31C]"
  using mining_loop_test_from_first_19 [of "[]" "fixed_regs []"]
  by (simp add: mining_loop_test_def offsets_written_def MINER_BASE_ADDR_def)

text \<open>
  C4. Where a pass of the SDK's polling loop prints the status, \<open>print_mining_status\<close>
  loads the found register before the not-found register. Then, in every pass, the found
  register is loaded and its bit 0 tested; only when that bit is 0 is the not-found register
  loaded and tested. When the found bit is set at a pass, the pass and with it the loop end as
  \<open>GoldenNonceFound\<close> with the value of a load of the golden-nonce register that directly
  follows the found check, whatever the not-found register holds; when it is clear and the
  not-found register is set, the loop ends as \<open>RangeExhausted\<close>; when both are clear and the
  cap is not reached, the loop goes on with the next pass. Conversely, a session that ends as
  \<open>GoldenNonceFound g\<close> ends with the load of the found register (bit 0 set), the load of
  \<open>g\<close>, and the reset pulse. (\<open>mining_loop_test\<close> and \<open>mining_loop_real\<close> are
  \<open>mining_loop_while\<close> with period 10, cap 1000 and period 100, cap 10000.) The test
  driver loads one status word per pass and tests bit 0 (found) before bit 1 (exhausted): with
  bit 0 set its loop returns \<open>GoldenNonceFound\<close> with the golden nonce loaded after the test,
  with only bit 1 set it returns \<open>RangeExhausted\<close>, with both clear it goes on with the next
  pass; and a session that ends as \<open>GoldenNonceFound g\<close> ends with the status load (bit 0
  set) and the load of \<open>g\<close>.
\<close>

theorem found_checked_before_exhausted:
  "print_mining_status hw t =
     (let t1 = snd (get_current_nonce hw t);
          found = hw t1 (MINER_BASE_ADDR + STATUS_FOUND);
          t2 = t1 @ [Read (MINER_BASE_ADDR + STATUS_FOUND) found];
          not_found = hw t2 (MINER_BASE_ADDR + STATUS_NOT_FOUND);
          t3 = t2 @ [Read (MINER_BASE_ADDR + STATUS_NOT_FOUND) not_found]
      in if found \<noteq> 0
         then t3 @ [Read (MINER_BASE_ADDR + STATUS_GOLDEN_NONCE)
                      (hw t3 (MINER_BASE_ADDR + STATUS_GOLDEN_NONCE))]
         else t3)
   \<and> (let t0 = (if iteration mod period = 0 then print_mining_status hw t else t);
        found = hw t0 (MINER_BASE_ADDR + STATUS_FOUND);
        t1 = t0 @ [Read (MINER_BASE_ADDR + STATUS_FOUND) found];
        golden = hw t1 (MINER_BASE_ADDR + STATUS_GOLDEN_NONCE);
        not_found = hw t1 (MINER_BASE_ADDR + STATUS_NOT_FOUND)
    in (found AND 1 \<noteq> 0 \<longrightarrow>
          mining_loop_body period cap hw iteration t =
            Break (GoldenNonceFound golden)
              (t1 @ [Read (MINER_BASE_ADDR + STATUS_GOLDEN_NONCE) golden] @ stop_mining [])
          \<and> mining_loop_while period cap hw n iteration t =
            \<lparr>result = GoldenNonceFound golden, passes = Suc n,
             events = t1 @ [Read (MINER_BASE_ADDR + STATUS_GOLDEN_NONCE) golden]
                         @ stop_mining []\<rparr>)
     \<and> (found AND 1 = 0 \<longrightarrow>
          (\<exists>rest. trace_of (mining_loop_body period cap hw iteration t) =
              t1 @ [Read (MINER_BASE_ADDR + STATUS_NOT_FOUND) not_found] @ rest)
          \<and> (not_found \<noteq> 0 \<longrightarrow>
               mining_loop_body period cap hw iteration t =
                 Break RangeExhausted
                   (t1 @ [Read (MINER_BASE_ADDR + STATUS_NOT_FOUND) not_found] @ stop_mining [])
               \<and> mining_loop_while period cap hw n iteration t =
                 \<lparr>result = RangeExhausted, passes = Suc n,
                  events = t1 @ [Read (MINER_BASE_ADDR + STATUS_NOT_FOUND) not_found]
                              @ stop_mining []\<rparr>)
          \<and> (not_found = 0 \<and> iteration + 1 \<le> cap \<longrightarrow>
               mining_loop_while period cap hw n iteration t =
                 mining_loop_while period cap hw (Suc n) (iteration + 1)
                   (t1 @ [Read (MINER_BASE_ADDR + STATUS_NOT_FOUND) not_found,
                          Delay 100000]))))
   \<and> (result (mining_loop_while period cap hw n iteration t) = GoldenNonceFound g \<longrightarrow>
        (\<exists>t0 f. events (mining_loop_while period cap hw n iteration t) =
            t0 @ [Read (MINER_BASE_ADDR + STATUS_FOUND) f,
                  Read (MINER_BASE_ADDR + STATUS_GOLDEN_NONCE) g] @ stop_mining []
          \<and> f = hw t0 (MINER_BASE_ADDR + STATUS_FOUND) \<and> f AND 1 \<noteq> 0
          \<and> g = hw (t0 @ [Read (MINER_BASE_ADDR + STATUS_FOUND) f])
                  (MINER_BASE_ADDR + STATUS_GOLDEN_NONCE)))
   \<and> (let status = hw t (SHA256D_BASE + REG_STATUS);
          t1 = t @ [Read (SHA256D_BASE + REG_STATUS) status];
          golden = hw t1 (SHA256D_BASE + REG_GOLDEN_NONCE);
          cur_nonce = hw t1 (SHA256D_BASE + REG_CUR_NONCE)
      in (status AND 1 \<noteq> 0 \<longrightarrow>
            main_poll_body hw t =
              Break (GoldenNonceFound golden)
                (t1 @ [Read (SHA256D_BASE + REG_GOLDEN_NONCE) golden])
            \<and> main_poll hw n t =
              Some \<lparr>result = GoldenNonceFound golden, passes = Suc n,
                    events = t1 @ [Read (SHA256D_BASE + REG_GOLDEN_NONCE) golden]\<rparr>)
       \<and> (status AND 1 = 0 \<and> status AND 2 \<noteq> 0 \<longrightarrow>
            main_poll_body hw t = Break RangeExhausted t1
            \<and> main_poll hw n t =
              Some \<lparr>result = RangeExhausted, passes = Suc n, events = t1\<rparr>)
       \<and> (status AND 1 = 0 \<and> status AND 2 = 0 \<longrightarrow>
            main_poll hw n t =
              main_poll hw (Suc n)
                (t1 @ [Read (SHA256D_BASE + REG_CUR_NONCE) cur_nonce, Delay 10000])))
   \<and> (main_poll hw n t = Some S \<and> result S = GoldenNonceFound g \<longrightarrow>
        (\<exists>t0 s. events S =
            t0 @ [Read (SHA256D_BASE + REG_STATUS) s, Read (SHA256D_BASE + REG_GOLDEN_NONCE) g]
          \<and> s = hw t0 (SHA256D_BASE + REG_STATUS) \<and> s AND 1 \<noteq> 0
          \<and> g = hw (t0 @ [Read (SHA256D_BASE + REG_STATUS) s])
                  (SHA256D_BASE + REG_GOLDEN_NONCE)))"
proof (intro conjI)
  show "print_mining_status hw t =
     (let t1 = snd (get_current_nonce hw t);
          found = hw t1 (MINER_BASE_ADDR + STATUS_FOUND);
          t2 = t1 @ [Read (MINER_BASE_ADDR + STATUS_FOUND) found];
          not_found = hw t2 (MINER_BASE_ADDR + STATUS_NOT_FOUND);
          t3 = t2 @ [Read (MINER_BASE_ADDR + STATUS_NOT_FOUND) not_found]
      in if found \<noteq> 0
         then t3 @ [Read (MINER_BASE_ADDR + STATUS_GOLDEN_NONCE)
                      (hw t3 (MINER_BASE_ADDR + STATUS_GOLDEN_NONCE))]
         else t3)"
    by (simp add: print_mining_status_def get_current_nonce_events read_register_snoc
        get_golden_nonce_def MINER_BASE_ADDR_def STATUS_FOUND_def STATUS_NOT_FOUND_def
        STATUS_GOLDEN_NONCE_def Let_def)
next
  show "let t0 = (if iteration mod period = 0 then print_mining_status hw t else t);
        found = hw t0 (MINER_BASE_ADDR + STATUS_FOUND);
        t1 = t0 @ [Read (MINER_BASE_ADDR + STATUS_FOUND) found];
        golden = hw t1 (MINER_BASE_ADDR + STATUS_GOLDEN_NONCE);
        not_found = hw t1 (MINER_BASE_ADDR + STATUS_NOT_FOUND)
    in (found AND 1 \<noteq> 0 \<longrightarrow>
          mining_loop_body period cap hw iteration t =
            Break (GoldenNonceFound golden)
              (t1 @ [Read (MINER_BASE_ADDR + STATUS_GOLDEN_NONCE) golden] @ stop_mining [])
          \<and> mining_loop_while period cap hw n iteration t =
            \<lparr>result = GoldenNonceFound golden, passes = Suc n,
             events = t1 @ [Read (MINER_BASE_ADDR + STATUS_GOLDEN_NONCE) golden]
                         @ stop_mining []\<rparr>)
     \<and> (found AND 1 = 0 \<longrightarrow>
          (\<exists>rest. trace_of (mining_loop_body period cap hw iteration t) =
              t1 @ [Read (MINER_BASE_ADDR + STATUS_NOT_FOUND) not_found] @ rest)
          \<and> (not_found \<noteq> 0 \<longrightarrow>
               mining_loop_body period cap hw iteration t =
                 Break RangeExhausted
                   (t1 @ [Read (MINER_BASE_ADDR + STATUS_NOT_FOUND) not_found] @ stop_mining [])
               \<and> mining_loop_while period cap hw n iteration t =
                 \<lparr>result = RangeExhausted, passes = Suc n,
                  events = t1 @ [Read (MINER_BASE_ADDR + STATUS_NOT_FOUND) not_found]
                              @ stop_mining []\<rparr>)
          \<and> (not_found = 0 \<and> iteration + 1 \<le> cap \<longrightarrow>
               mining_loop_while period cap hw n iteration t =
                 mining_loop_while period cap hw (Suc n) (iteration + 1)
                   (t1 @ [Read (MINER_BASE_ADDR + STATUS_NOT_FOUND) not_found,
                          Delay 100000])))"
    by (simp add: mining_loop_while.simps [of period cap hw n iteration t]
        mining_loop_body_def check_found_def read_register_snoc get_golden_nonce_def
        stop_mining_events usleep_def MINER_BASE_ADDR_def STATUS_FOUND_def STATUS_NOT_FOUND_def
        STATUS_GOLDEN_NONCE_def Let_def)
next
  show "result (mining_loop_while period cap hw n iteration t) = GoldenNonceFound g \<longrightarrow>
        (\<exists>t0 f. events (mining_loop_while period cap hw n iteration t) =
            t0 @ [Read (MINER_BASE_ADDR + STATUS_FOUND) f,
                  Read (MINER_BASE_ADDR + STATUS_GOLDEN_NONCE) g] @ stop_mining []
          \<and> f = hw t0 (MINER_BASE_ADDR + STATUS_FOUND) \<and> f AND 1 \<noteq> 0
          \<and> g = hw (t0 @ [Read (MINER_BASE_ADDR + STATUS_FOUND) f])
                  (MINER_BASE_ADDR + STATUS_GOLDEN_NONCE))"
    using mining_loop_while_found [of period cap hw n iteration t g]
    by (simp add: stop_mining_events MINER_BASE_ADDR_def STATUS_FOUND_def
        STATUS_GOLDEN_NONCE_def)
next
  show "let status = hw t (SHA256D_BASE + REG_STATUS);
          t1 = t @ [Read (SHA256D_BASE + REG_STATUS) status];
          golden = hw t1 (SHA256D_BASE + REG_GOLDEN_NONCE);
          cur_nonce = hw t1 (SHA256D_BASE + REG_CUR_NONCE)
      in (status AND 1 \<noteq> 0 \<longrightarrow>
            main_poll_body hw t =
              Break (GoldenNonceFound golden)
                (t1 @ [Read (SHA256D_BASE + REG_GOLDEN_NONCE) golden])
            \<and> main_poll hw n t =
              Some \<lparr>result = GoldenNonceFound golden, passes = Suc n,
                    events = t1 @ [Read (SHA256D_BASE + REG_GOLDEN_NONCE) golden]\<rparr>)
       \<and> (status AND 1 = 0 \<and> status AND 2 \<noteq> 0 \<longrightarrow>
            main_poll_body hw t = Break RangeExhausted t1
            \<and> main_poll hw n t =
              Some \<lparr>result = RangeExhausted, passes = Suc n, events = t1\<rparr>)
       \<and> (status AND 1 = 0 \<and> status AND 2 = 0 \<longrightarrow>
            main_poll hw n t =
              main_poll hw (Suc n)
                (t1 @ [Read (SHA256D_BASE + REG_CUR_NONCE) cur_nonce, Delay 10000]))"
    by (simp add: main_poll.simps [of hw n t] main_poll_body_def read_reg_snoc usleep_def
        SHA256D_BASE_def REG_STATUS_def REG_GOLDEN_NONCE_def REG_CUR_NONCE_def Let_def)
next
  show "main_poll hw n t = Some S \<and> result S = GoldenNonceFound g \<longrightarrow>
        (\<exists>t0 s. events S =
            t0 @ [Read (SHA256D_BASE + REG_STATUS) s, Read (SHA256D_BASE + REG_GOLDEN_NONCE) g]
          \<and> s = hw t0 (SHA256D_BASE + REG_STATUS) \<and> s AND 1 \<noteq> 0
          \<and> g = hw (t0 @ [Read (SHA256D_BASE + REG_STATUS) s])
                  (SHA256D_BASE + REG_GOLDEN_NONCE))"
    using main_poll_found [of hw n t S g]
    by (simp add: SHA256D_BASE_def REG_STATUS_def REG_GOLDEN_NONCE_def)
qed

theorem found_checked_before_exhausted_witness:
  "mining_loop_body 10 1000 (fixed_regs [(0x43C00000, 1), (0x43C00008, 0xCAFE)]) 3 [] =
     Break (GoldenNonceFound 0xCAFE)
       [Read 0x43C00000 1, Read 0x43C00008 0xCAFE,
        Write 0x43C00000 1, Delay 1000, Write 0x43C00000 0]
   \<and> mining_loop_while 10 1000 (fixed_regs [(0x43C00000, 1), (0x43C00008, 0xCAFE)]) 0 3 [] =
     \<lparr>result = GoldenNonceFound 0xCAFE, passes = 1,
      events = [Read 0x43C00000 1, Read 0x43C00008 0xCAFE,
                Write 0x43C00000 1, Delay 1000, Write 0x43C00000 0]\<rparr>
   \<and> mining_loop_while 10 1000 (fixed_regs [(0x43C00004, 1)]) 0 3 [] =
     \<lparr>result = RangeExhausted, passes = 1,
      events = [Read 0x43C00000 0, Read 0x43C00004 1,
                Write 0x43C00000 1, Delay 1000, Write 0x43C00000 0]\<rparr>
   \<and> mining_loop_while 10 1000
         (regs_after 2 [(0x43C00000, 1), (0x43C00004, 1), (0x43C00008, 0xCAFE)]) 0 3 [] =
     \<lparr>result = GoldenNonceFound 0xCAFE, passes = 2,
      events = [Read 0x43C00000 0, Read 0x43C00004 0, Delay 100000,
                Read 0x43C00000 1, Read 0x43C00008 0xCAFE,
                Write 0x43C00000 1, Delay 1000, Write 0x43C00000 0]\<rparr>
   \<and> (\<exists>t0 f. events (mining_loop_while 10 1000
         (fixed_regs [(0x43C00000, 1), (0x43C00008, 0xCAFE)]) 0 3 []) =
            t0 @ [Read 0x43C00000 f, Read 0x43C00008 0xCAFE,
                  Write 0x43C00000 1, Delay 1000, Write 0x43C00000 0]
          \<and> f AND 1 \<noteq> 0)
   \<and> main_poll (fixed_regs [(0x43C00008, 3), (0x43C0000C, 0xCAFE)]) 0 [] =
       Some \<lparr>result = GoldenNonceFound 0xCAFE, passes = 1,
             events = [Read 0x43C00008 3, Read 0x43C0000C 0xCAFE]\<rparr>
   \<and> main_poll (fixed_regs [(0x43C00008, 2)]) 0 [] =
       Some \<lparr>result = RangeExhausted, passes = 1, events = [Read 0x43C00008 2]\<rparr>
   \<and> main_poll (regs_after 1 [(0x43C00008, 3), (0x43C0000C, 0xCAFE)]) 0 [] =
       Some \<lparr>result = GoldenNonceFound 0xCAFE, passes = 2,
             events = [Read 0x43C00008 0, Read 0x43C00014 0, Delay 10000,
                       Read 0x43C00008 3, Read 0x43C0000C 0xCAFE]\<rparr>
   \<and> (\<exists>t0 s. events \<lparr>result = GoldenNonceFound 0xCAFE, passes = 1,
             events = [Read 0x43C00008 3, Read 0x43C0000C 0xCAFE]\<rparr> =
            t0 @ [Read 0x43C00008 s, Read 0x43C0000C 0xCAFE] \<and> s AND 1 \<noteq> 0)"
proof -
  let ?found = "fixed_regs [(0x43C00000, 1), (0x43C00008, 0xCAFE)]"
  let ?exh = "fixed_regs [(0x43C00004, 1)]"
  let ?late = "regs_after 2 [(0x43C00000, 1), (0x43C00004, 1), (0x43C00008, 0xCAFE)]"
  let ?tfound = "fixed_regs [(0x43C00008, 3), (0x43C0000C, 0xCAFE)]"
  let ?texh = "fixed_regs [(0x43C00008, 2)]"
  let ?tlate = "regs_after 1 [(0x43C00008, 3), (0x43C0000C, 0xCAFE)]"
  let ?S1 = "\<lparr>result = GoldenNonceFound 0xCAFE, passes = 1,
      events = [Read 0x43C00000 1, Read 0x43C00008 0xCAFE,
                Write 0x43C00000 1, Delay 1000, Write 0x43C00000 0]\<rparr>"
  let ?T1 = "\<lparr>result = GoldenNonceFound 0xCAFE, passes = 1,
             events = [Read 0x43C00008 3, Read 0x43C0000C 0xCAFE]\<rparr>"
  note defs = fixed_regs_def regs_after_def MINER_BASE_ADDR_def SHA256D_BASE_def
    STATUS_FOUND_def STATUS_NOT_FOUND_def STATUS_GOLDEN_NONCE_def REG_STATUS_def
    REG_GOLDEN_NONCE_def REG_CUR_NONCE_def stop_mining_events Let_def
  have a: "mining_loop_body 10 1000 ?found 3 [] =
     Break (GoldenNonceFound 0xCAFE)
       [Read 0x43C00000 1, Read 0x43C00008 0xCAFE,
        Write 0x43C00000 1, Delay 1000, Write 0x43C00000 0]"
    and b: "mining_loop_while 10 1000 ?found 0 3 [] = ?S1"
    using found_checked_before_exhausted [where iteration = 3 and period = 10 and cap = 1000
        and hw = ?found and t = "[]" and n = 0 and g = "0xCAFE" and S = ?S1, THEN conjunct2, THEN conjunct1]
    by (simp_all add: defs)
  have c: "mining_loop_while 10 1000 ?exh 0 3 [] =
     \<lparr>result = RangeExhausted, passes = 1,
      events = [Read 0x43C00000 0, Read 0x43C00004 1,
                Write 0x43C00000 1, Delay 1000, Write 0x43C00000 0]\<rparr>"
    using found_checked_before_exhausted [where iteration = 3 and period = 10 and cap = 1000
        and hw = ?exh and t = "[]" and n = 0 and g = "0xCAFE" and S = ?S1, THEN conjunct2, THEN conjunct1]
    by (simp add: defs)
  have d1: "mining_loop_while 10 1000 ?late 0 3 [] =
      mining_loop_while 10 1000 ?late 1 4 [Read 0x43C00000 0, Read 0x43C00004 0, Delay 100000]"
    using found_checked_before_exhausted [where iteration = 3 and period = 10 and cap = 1000
        and hw = ?late and t = "[]" and n = 0 and g = "0xCAFE" and S = ?S1, THEN conjunct2, THEN conjunct1]
    by (simp add: defs)
  have d2: "mining_loop_while 10 1000 ?late 1 4
        [Read 0x43C00000 0, Read 0x43C00004 0, Delay 100000] =
     \<lparr>result = GoldenNonceFound 0xCAFE, passes = 2,
      events = [Read 0x43C00000 0, Read 0x43C00004 0, Delay 100000,
                Read 0x43C00000 1, Read 0x43C00008 0xCAFE,
                Write 0x43C00000 1, Delay 1000, Write 0x43C00000 0]\<rparr>"
    using found_checked_before_exhausted [where iteration = 4 and period = 10 and cap = 1000
        and hw = ?late and t = "[Read 0x43C00000 0, Read 0x43C00004 0, Delay 100000]"
        and n = 1 and g = "0xCAFE" and S = ?S1, THEN conjunct2, THEN conjunct1]
    by (simp add: defs)
  have e: "\<exists>t0 f. events (mining_loop_while 10 1000 ?found 0 3 []) =
            t0 @ [Read 0x43C00000 f, Read 0x43C00008 0xCAFE,
                  Write 0x43C00000 1, Delay 1000, Write 0x43C00000 0]
          \<and> f AND 1 \<noteq> 0"
    using found_checked_before_exhausted [where iteration = 3 and period = 10 and cap = 1000
        and hw = ?found and t = "[]" and n = 0 and g = "0xCAFE" and S = ?S1, THEN conjunct2, THEN conjunct2, THEN conjunct1] b
    by (simp add: defs)
  have f: "main_poll ?tfound 0 [] = Some ?T1"
    using found_checked_before_exhausted [where iteration = 3 and period = 10 and cap = 1000
        and hw = ?tfound and t = "[]" and n = 0 and g = "0xCAFE" and S = ?T1, THEN conjunct2, THEN conjunct2, THEN conjunct2, THEN conjunct1]
    by (simp add: defs)
  have g: "main_poll ?texh 0 [] =
       Some \<lparr>result = RangeExhausted, passes = 1, events = [Read 0x43C00008 2]\<rparr>"
    using found_checked_before_exhausted [where iteration = 3 and period = 10 and cap = 1000
        and hw = ?texh and t = "[]" and n = 0 and g = "0xCAFE" and S = ?T1, THEN conjunct2, THEN conjunct2, THEN conjunct2, THEN conjunct1]
    by (simp add: defs)
  have h1: "main_poll ?tlate 0 [] =
      main_poll ?tlate 1 [Read 0x43C00008 0, Read 0x43C00014 0, Delay 10000]"
    using found_checked_before_exhausted [where iteration = 3 and period = 10 and cap = 1000
        and hw = ?tlate and t = "[]" and n = 0 and g = "0xCAFE" and S = ?T1, THEN conjunct2, THEN conjunct2, THEN conjunct2, THEN conjunct1]
    by (simp add: defs)
  have h2: "main_poll ?tlate 1 [Read 0x43C00008 0, Read 0x43C00014 0, Delay 10000] =
       Some \<lparr>result = GoldenNonceFound 0xCAFE, passes = 2,
             events = [Read 0x43C00008 0, Read 0x43C00014 0, Delay 10000,
                       Read 0x43C00008 3, Read 0x43C0000C 0xCAFE]\<rparr>"
    using found_checked_before_exhausted [where iteration = 3 and period = 10 and cap = 1000
        and hw = ?tlate and t = "[Read 0x43C00008 0, Read 0x43C00014 0, Delay 10000]"
        and n = 1 and g = "0xCAFE" and S = ?T1, THEN conjunct2, THEN conjunct2, THEN conjunct2, THEN conjunct1]
    by (simp add: defs)
  have i: "\<exists>t0 s. events ?T1 =
            t0 @ [Read 0x43C00008 s, Read 0x43C0000C 0xCAFE] \<and> s AND 1 \<noteq> 0"
    using found_checked_before_exhausted [where iteration = 3 and period = 10 and cap = 1000
        and hw = ?tfound and t = "[]" and n = 0 and g = "0xCAFE" and S = ?T1, THEN conjunct2, THEN conjunct2, THEN conjunct2, THEN conjunct2] f
    by (simp add: defs)
  from a b c d1 d2 e f g h1 h2 i show ?thesis
    by (simp only: simp_thms)
qed

text \<open>
  C5. A reset, and \<open>stop_mining\<close>, which is the SDK's reset, writes 1 to the reset control
  register, sleeps 1000 microseconds (1 ms) and writes 0 to the same register; nothing follows
  the deasserting store inside the function, so it never returns with the bit asserted. The
  test driver does the same pulse inline between loading the job and the start pulse.
\<close>

theorem reset_pulse_deasserts:
  "stop_mining t =
     t @ [Write (MINER_BASE_ADDR + CTRL_SRST) 1, Delay 1000, Write (MINER_BASE_ADDR + CTRL_SRST) 0]
   \<and> last (stop_mining t) = Write (MINER_BASE_ADDR + CTRL_SRST) 0
   \<and> main_setup t =
       write_block_header main_mid main_res main_tgt t
         @ [Write (SHA256D_BASE + REG_RESET) 1, Delay 1000, Write (SHA256D_BASE + REG_RESET) 0,
            Write (SHA256D_BASE + REG_START) 1]"
  by (simp add: stop_mining_events main_setup_events MINER_BASE_ADDR_def CTRL_SRST_def
      SHA256D_BASE_def REG_RESET_def REG_START_def)

text \<open>
  C6. Every call of \<open>get_current_nonce\<close> stores 1 to the current-nonce request register,
  sleeps 1000 microseconds, stores 0 to that register, and only then loads the current-nonce
  status register; the value of that load is the value returned.
\<close>

theorem get_current_nonce_handshake:
  "get_current_nonce hw t =
     (let req = MINER_BASE_ADDR + CTRL_CURRENT_HASH_REQ;
          t3 = t @ [Write req 1, Delay 1000, Write req 0];
          val = hw t3 (MINER_BASE_ADDR + STATUS_CURRENT_NONCE)
      in (val, t3 @ [Read (MINER_BASE_ADDR + STATUS_CURRENT_NONCE) val]))"
  by (simp add: get_current_nonce_events Let_def MINER_BASE_ADDR_def CTRL_CURRENT_HASH_REQ_def
      STATUS_CURRENT_NONCE_def)

text \<open>
  C7, as the code has it. A session of the SDK's mining loops ends with one of the three
  outcomes; over the whole session the reset control register is stored to exactly twice, 1
  then 0, and these stores are the reset pulse of \<open>stop_mining\<close> that ends the session's
  trace. A session of the test driver that ends does so as \<open>GoldenNonceFound\<close> or
  \<open>RangeExhausted\<close>, and no store at all follows the start pulse: the core is not stopped.
\<close>

theorem session_outcome_and_stop:
  "((\<exists>g. result (mining_loop_test hw now t) = GoldenNonceFound g)
      \<or> result (mining_loop_test hw now t) = RangeExhausted
      \<or> result (mining_loop_test hw now t) = TimedOut)
   \<and> reset_stores (drop (length t) (events (mining_loop_test hw now t)))
       = [(MINER_BASE_ADDR + CTRL_SRST, 1), (MINER_BASE_ADDR + CTRL_SRST, 0)]
   \<and> (\<exists>t'. events (mining_loop_test hw now t) = t' @ stop_mining [])
   \<and> ((\<exists>g. result (mining_loop_real hw now t) = GoldenNonceFound g)
      \<or> result (mining_loop_real hw now t) = RangeExhausted
      \<or> result (mining_loop_real hw now t) = TimedOut)
   \<and> reset_stores (drop (length t) (events (mining_loop_real hw now t)))
       = [(MINER_BASE_ADDR + CTRL_SRST, 1), (MINER_BASE_ADDR + CTRL_SRST, 0)]
   \<and> (\<exists>t'. events (mining_loop_real hw now t) = t' @ stop_mining [])
   \<and> (main_test hw t = Some S \<longrightarrow>
        ((\<exists>g. result S = GoldenNonceFound g) \<or> result S = RangeExhausted)
        \<and> (\<exists>ev. events S = main_setup t @ ev \<and> writes_of ev = []))"
proof (intro conjI impI)
  show "(\<exists>g. result (mining_loop_test hw now t) = GoldenNonceFound g)
      \<or> result (mining_loop_test hw now t) = RangeExhausted
      \<or> result (mining_loop_test hw now t) = TimedOut"
    by (cases "result (mining_loop_test hw now t)") simp_all
  show "(\<exists>g. result (mining_loop_real hw now t) = GoldenNonceFound g)
      \<or> result (mining_loop_real hw now t) = RangeExhausted
      \<or> result (mining_loop_real hw now t) = TimedOut"
    by (cases "result (mining_loop_real hw now t)") simp_all
next
  let ?h = "\<lparr>version = 0x20000000, prev_block = replicate 32 0, merkle_root = replicate 32 0,
        timestamp = now, bits = 0x1D00FFFF, nonce = 0\<rparr>"
  obtain t0 where t0: "mining_loop_test hw now t = mining_loop_while 10 1000 hw 0 0 (t @ t0)"
    "reset_stores t0 = []"
    unfolding mining_loop_test_def mining_loop_test_from_load
    by (simp add: reset_stores_def MINER_BASE_ADDR_def CTRL_SRST_def)
  from mining_loop_while_shape [of 10 1000 hw 0 0 "t @ t0"]
  obtain ev where ev: "events (mining_loop_test hw now t)
      = t @ t0 @ ev @ [Write 0x43C00000 1, Delay 1000, Write 0x43C00000 0]"
    "list_all poll_access ev"
    unfolding t0(1) by auto
  show "reset_stores (drop (length t) (events (mining_loop_test hw now t)))
       = [(MINER_BASE_ADDR + CTRL_SRST, 1), (MINER_BASE_ADDR + CTRL_SRST, 0)]"
    unfolding ev(1)
    using t0(2) poll_access_reset_stores [OF ev(2)]
    by (simp add: reset_stores_append) (simp add: reset_stores_def MINER_BASE_ADDR_def CTRL_SRST_def)
  show "\<exists>t'. events (mining_loop_test hw now t) = t' @ stop_mining []"
    unfolding mining_loop_test_def mining_loop_test_from_load stop_mining_events
    using mining_loop_while_ends_with_stop [of 10 1000 hw 0 0] by simp
next
  obtain t0 where t0: "mining_loop_real hw now t = mining_loop_while 100 10000 hw 0 0 (t @ t0)"
    "reset_stores t0 = []"
    unfolding mining_loop_real_def mining_loop_real_from_load
    by (simp add: reset_stores_def MINER_BASE_ADDR_def CTRL_SRST_def)
  from mining_loop_while_shape [of 100 10000 hw 0 0 "t @ t0"]
  obtain ev where ev: "events (mining_loop_real hw now t)
      = t @ t0 @ ev @ [Write 0x43C00000 1, Delay 1000, Write 0x43C00000 0]"
    "list_all poll_access ev"
    unfolding t0(1) by auto
  show "reset_stores (drop (length t) (events (mining_loop_real hw now t)))
       = [(MINER_BASE_ADDR + CTRL_SRST, 1), (MINER_BASE_ADDR + CTRL_SRST, 0)]"
    unfolding ev(1)
    using t0(2) poll_access_reset_stores [OF ev(2)]
    by (simp add: reset_stores_append) (simp add: reset_stores_def MINER_BASE_ADDR_def CTRL_SRST_def)
  show "\<exists>t'. events (mining_loop_real hw now t) = t' @ stop_mining []"
    unfolding mining_loop_real_def mining_loop_real_from_load stop_mining_events
    using mining_loop_while_ends_with_stop [of 100 10000 hw 0 0] by simp
next
  assume S: "main_test hw t = Some S"
  from main_test_shape(1) [OF S]
  show "(\<exists>g. result S = GoldenNonceFound g) \<or> result S = RangeExhausted"
    by (cases "result S") simp_all
  from main_test_shape(2) [OF S]
  show "\<exists>ev. events S = main_setup t @ ev \<and> writes_of ev = []" .
qed

theorem session_outcome_and_stop_witness:
  "main_test (fixed_regs [(0x43C00008, 1), (0x43C0000C, 0xCAFE)]) [] =
     Some \<lparr>result = GoldenNonceFound 0xCAFE, passes = 1,
           events = main_setup [] @ [Read 0x43C00008 1, Read 0x43C0000C 0xCAFE]\<rparr>
   \<and> (\<exists>ev. main_setup [] @ [Read 0x43C00008 1, Read 0x43C0000C 0xCAFE] = main_setup [] @ ev
           \<and> writes_of ev = [])
   \<and> reset_stores (events (mining_loop_test
          (fixed_regs [(0x43C00008, 1), (0x43C0000C, 0xCAFE)]) 0 []))
       = [(MINER_BASE_ADDR + CTRL_SRST, 1), (MINER_BASE_ADDR + CTRL_SRST, 0)]"
  using session_outcome_and_stop [of "fixed_regs [(0x43C00008, 1), (0x43C0000C, 0xCAFE)]" 0 "[]"
      "\<lparr>result = GoldenNonceFound 0xCAFE, passes = 1,
           events = main_setup [] @ [Read 0x43C00008 1, Read 0x43C0000C 0xCAFE]\<rparr>"]
    main_test_found_at_once
  by simp

text \<open>
  C7 as stated fails on the test driver: with the found bit set at the first status load the
  session ends as \<open>GoldenNonceFound\<close> after two loads, and nothing is stored after the
  start pulse.
\<close>

theorem test_driver_ends_without_stop:
  "main_test (fixed_regs [(0x43C00008, 1), (0x43C0000C, 0xCAFE)]) [] =
     Some \<lparr>result = GoldenNonceFound 0xCAFE, passes = 1,
           events = main_setup [] @ [Read (SHA256D_BASE + REG_STATUS) 1,
                                     Read (SHA256D_BASE + REG_GOLDEN_NONCE) 0xCAFE]\<rparr>
   \<and> writes_of [Read (SHA256D_BASE + REG_STATUS) 1,
                  Read (SHA256D_BASE + REG_GOLDEN_NONCE) 0xCAFE] = []"
  by (simp add: main_test_found_at_once SHA256D_BASE_def REG_STATUS_def REG_GOLDEN_NONCE_def)

text \<open>
  C8. For every block header, \<open>process_block_header\<close> sets the residual words to the
  header's nonce, the padding marker \<open>0x80000000\<close> and the length constant \<open>0x140\<close>,
  and builds the target from the low three bytes of \<open>bits\<close> in word 0 and
  \<open>0xFFFFFFFF\<close> in words 1 to 7; for \<open>bits = 0x1D00FFFF\<close> word 0 is \<open>0x00FFFF\<close>.
  The hypotheses say that the parameter block has the array sizes of its C type.
\<close>

theorem process_block_header_residual_target:
  assumes "length (mid_state params) = 8" "length (residual_data params) = 3"
    "length (target params) = 8"
  shows "residual_data (process_block_header header params)
           = [nonce header, 0x80000000, 0x00000140]
       \<and> target (process_block_header header params)
           = [bits header AND 0xFFFFFF, 0xFFFFFFFF, 0xFFFFFFFF, 0xFFFFFFFF,
              0xFFFFFFFF, 0xFFFFFFFF, 0xFFFFFFFF, 0xFFFFFFFF]
       \<and> (bits header = 0x1D00FFFF \<longrightarrow>
            target (process_block_header header params)
              = [0x00FFFF, 0xFFFFFFFF, 0xFFFFFFFF, 0xFFFFFFFF,
                 0xFFFFFFFF, 0xFFFFFFFF, 0xFFFFFFFF, 0xFFFFFFFF])"
  using assms by (simp add: process_block_header_fields)

theorem process_block_header_residual_target_witness:
  "length (mid_state params_decl) = 8 \<and> length (residual_data params_decl) = 3
   \<and> length (target params_decl) = 8
   \<and> residual_data (process_block_header
        \<lparr>version = 0x20000000, prev_block = replicate 32 0, merkle_root = replicate 32 0,
         timestamp = 0, bits = 0x1D00FFFF, nonce = 7\<rparr> params_decl) = [7, 0x80000000, 0x140]
   \<and> target (process_block_header
        \<lparr>version = 0x20000000, prev_block = replicate 32 0, merkle_root = replicate 32 0,
         timestamp = 0, bits = 0x1D00FFFF, nonce = 7\<rparr> params_decl)
       = [0x00FFFF, 0xFFFFFFFF, 0xFFFFFFFF, 0xFFFFFFFF,
          0xFFFFFFFF, 0xFFFFFFFF, 0xFFFFFFFF, 0xFFFFFFFF]"
proof -
  have len: "length (mid_state params_decl) = 8" "length (residual_data params_decl) = 3"
    "length (target params_decl) = 8"
    by (simp_all add: params_decl_def)
  show ?thesis
    using len process_block_header_residual_target [OF len,
        of "\<lparr>version = 0x20000000, prev_block = replicate 32 0, merkle_root = replicate 32 0,
         timestamp = 0, bits = 0x1D00FFFF, nonce = 7\<rparr>"]
    by simp
qed

text \<open>
  C9. Typed 1 runs the test loop, typed 2 the real-difficulty loop, and another number that
  an \<^verbatim>\<open>int\<close> holds, such as 7, runs the test loop. For other input the code does not
  do what the claim says: typed \<open>abc\<close> stores nothing, typed \<open>4294967298\<close> is not
  representable, \<^verbatim>\<open>main\<close> checks neither, and when \<open>choice\<close> then holds 2 the
  real-difficulty loop runs, which is not the test loop.
\<close>

theorem main_unchecked_selection:
  "main_sdk hw now ''1'' indeterminate t = mining_loop_test hw now (stop_mining t)
   \<and> main_sdk hw now ''2'' indeterminate t = mining_loop_real hw now (stop_mining t)
   \<and> main_sdk hw now ''7'' indeterminate t = mining_loop_test hw now (stop_mining t)
   \<and> scanf_d ''abc'' = None
   \<and> main_sdk hw now ''abc'' 2 t = mining_loop_real hw now (stop_mining t)
   \<and> scanf_d ''4294967298'' = Some 4294967298
   \<and> main_sdk hw now ''4294967298'' 2 t = mining_loop_real hw now (stop_mining t)
   \<and> mining_loop_real hw now (stop_mining t) \<noteq> mining_loop_test hw now (stop_mining t)"
  using mining_loops_differ [of hw now "stop_mining t"]
  by (simp add: main_sdk_stored [where v = 1] main_sdk_stored [where v = 2]
      main_sdk_stored [where v = 7] main_sdk_not_stored scanf_d_examples)

text \<open>
  C10. For every block header, the stores of \<open>mining_loop_test\<close> to the target bank are the
  eight words of \<open>set_test_difficulty\<close>, those of \<open>mining_loop_real\<close> the eight words of
  \<open>set_real_difficulty\<close>; they come first, before the midstate and residual banks and the
  start pulse, and nothing later in the session stores to the target bank. The target that
  \<open>process_block_header\<close> computes differs from both constants and is never written: the
  whole session is the same whatever the header's \<open>bits\<close>.
\<close>

theorem target_registers_hold_fixed_constants:
  "(\<exists>ev. events (mining_loop_test_from hw header t) =
       t @ [Write 0x43C00300 0xFFFFFFFF, Write 0x43C00304 0xFFFFFFFF,
            Write 0x43C00308 0xFFFFFFFF, Write 0x43C0030C 0xFFFFFFFF,
            Write 0x43C00310 0xFFFFFFFF, Write 0x43C00314 0xFFFFFFFF,
            Write 0x43C00318 0xFFFFFFFF, Write 0x43C0031C 0x000000FF,
            Write 0x43C00100 0x12345678, Write 0x43C00104 0x12345679,
            Write 0x43C00108 0x1234567A, Write 0x43C0010C 0x1234567B,
            Write 0x43C00110 0x1234567C, Write 0x43C00114 0x1234567D,
            Write 0x43C00118 0x1234567E, Write 0x43C0011C 0x1234567F,
            Write 0x43C00200 (nonce header), Write 0x43C00204 0x80000000,
            Write 0x43C00208 0x00000140,
            Write 0x43C00004 1]
         @ ev @ stop_mining []
       \<and> target_stores ev = [])
   \<and> map snd (target_stores (drop (length t) (events (mining_loop_test_from hw header t))))
       = easy_target
   \<and> (\<exists>ev. events (mining_loop_real_from hw header t) =
       t @ [Write 0x43C00300 0, Write 0x43C00304 0,
            Write 0x43C00308 0, Write 0x43C0030C 0,
            Write 0x43C00310 0, Write 0x43C00314 0,
            Write 0x43C00318 0, Write 0x43C0031C 0,
            Write 0x43C00100 0x12345678, Write 0x43C00104 0x12345679,
            Write 0x43C00108 0x1234567A, Write 0x43C0010C 0x1234567B,
            Write 0x43C00110 0x1234567C, Write 0x43C00114 0x1234567D,
            Write 0x43C00118 0x1234567E, Write 0x43C0011C 0x1234567F,
            Write 0x43C00200 (nonce header), Write 0x43C00204 0x80000000,
            Write 0x43C00208 0x00000140,
            Write 0x43C00004 1]
         @ ev @ stop_mining []
       \<and> target_stores ev = [])
   \<and> map snd (target_stores (drop (length t) (events (mining_loop_real_from hw header t))))
       = real_target
   \<and> target (process_block_header header params_decl) \<noteq> easy_target
   \<and> target (process_block_header header params_decl) \<noteq> real_target
   \<and> mining_loop_test_from hw (header\<lparr>bits := b\<rparr>) t = mining_loop_test_from hw header t
   \<and> mining_loop_real_from hw (header\<lparr>bits := b\<rparr>) t = mining_loop_real_from hw header t"
proof -
  let ?mid = "[Write 0x43C00100 0x12345678, Write 0x43C00104 0x12345679,
            Write 0x43C00108 0x1234567A, Write 0x43C0010C 0x1234567B,
            Write 0x43C00110 0x1234567C, Write 0x43C00114 0x1234567D,
            Write 0x43C00118 0x1234567E, Write 0x43C0011C 0x1234567F,
            Write 0x43C00200 (nonce header), Write 0x43C00204 0x80000000,
            Write 0x43C00208 0x00000140,
            Write 0x43C00004 1]"
  let ?easy = "[Write 0x43C00300 0xFFFFFFFF, Write 0x43C00304 0xFFFFFFFF,
            Write 0x43C00308 0xFFFFFFFF, Write 0x43C0030C 0xFFFFFFFF,
            Write 0x43C00310 0xFFFFFFFF, Write 0x43C00314 0xFFFFFFFF,
            Write 0x43C00318 0xFFFFFFFF, Write 0x43C0031C 0x000000FF]"
  let ?real = "[Write 0x43C00300 0, Write 0x43C00304 0,
            Write 0x43C00308 0, Write 0x43C0030C 0,
            Write 0x43C00310 0, Write 0x43C00314 0,
            Write 0x43C00318 0, Write 0x43C0031C (0::u32)]"
  let ?stop = "[Write 0x43C00000 1, Delay 1000, Write 0x43C00000 (0::u32)]"
  from mining_loop_while_shape [of 10 1000 hw 0 0 "t @ ?easy @ ?mid"]
  obtain ev1 where ev1: "events (mining_loop_test_from hw header t)
      = t @ (?easy @ ?mid) @ ev1 @ ?stop" "list_all poll_access ev1"
    unfolding mining_loop_test_from_load by auto
  from mining_loop_while_shape [of 100 10000 hw 0 0 "t @ ?real @ ?mid"]
  obtain ev2 where ev2: "events (mining_loop_real_from hw header t)
      = t @ (?real @ ?mid) @ ev2 @ ?stop" "list_all poll_access ev2"
    unfolding mining_loop_real_from_load by auto
  note e1 = poll_access_target_stores [OF ev1(2)]
  note e2 = poll_access_target_stores [OF ev2(2)]
  have A: "\<exists>ev. events (mining_loop_test_from hw header t) = t @ (?easy @ ?mid) @ ev @ stop_mining []
       \<and> target_stores ev = []"
    using ev1(1) e1 by (simp add: stop_mining_events)
  have B: "map snd (target_stores (drop (length t) (events (mining_loop_test_from hw header t))))
       = easy_target"
  proof -
    have "drop (length t) (events (mining_loop_test_from hw header t))
        = ?easy @ ?mid @ ev1 @ ?stop"
      using ev1(1) by simp
    then show ?thesis
      using e1 by (simp add: target_stores_append target_stores_simps in_target_bank_def
          MINER_BASE_ADDR_def BANK_3_OFFSET_def easy_target_def)
  qed
  have C: "\<exists>ev. events (mining_loop_real_from hw header t) = t @ (?real @ ?mid) @ ev @ stop_mining []
       \<and> target_stores ev = []"
    using ev2(1) e2 by (simp add: stop_mining_events)
  have D: "map snd (target_stores (drop (length t) (events (mining_loop_real_from hw header t))))
       = real_target"
  proof -
    have "drop (length t) (events (mining_loop_real_from hw header t))
        = ?real @ ?mid @ ev2 @ ?stop"
      using ev2(1) by simp
    then show ?thesis
      using e2 by (simp add: target_stores_append target_stores_simps in_target_bank_def
          MINER_BASE_ADDR_def BANK_3_OFFSET_def real_target_def)
  qed
  have E: "mining_loop_test_from hw (header\<lparr>bits := b\<rparr>) t = mining_loop_test_from hw header t"
    "mining_loop_real_from hw (header\<lparr>bits := b\<rparr>) t = mining_loop_real_from hw header t"
    by (simp_all add: mining_loop_test_from_load mining_loop_real_from_load)
  from A B C D E process_block_header_target_differs [of header]
  show ?thesis by simp
qed

end
